theory Spec2Isabelle
  imports Main
begin

section \<open>The five tables of contracts.db\<close>

text \<open>
  One record per table of \<^verbatim>\<open>init_db\<close>, one field per column. Every TEXT column is a
  \<open>string\<close>. The REAL columns (budget, parts cost, labor hours, amount) are only stored and
  read back, never computed with, so their type is the parameter \<open>'r\<close>. The column
  \<^verbatim>\<open>contract_id\<close> occurs in four tables; outside \<^verbatim>\<open>contracts\<close> the field carries the
  table's name as a prefix.
\<close>

record user =
  user_id :: string
  username :: string
  password :: string
  role :: string

record 'r contract =
  contract_id :: string
  vendor_name :: string
  description :: string
  start_date :: string
  end_date :: string
  budget :: 'r
  status :: string

record approval =
  approval_id :: string
  approval_contract_id :: string
  approver_id :: string
  approval_status :: string
  timestamp :: string

record 'r service_report =
  report_id :: string
  report_contract_id :: string
  service_date :: string
  work_performed :: string
  parts_cost :: 'r
  labor_hours :: 'r

record 'r invoice =
  invoice_id :: string
  invoice_contract_id :: string
  amount :: 'r
  invoice_date :: string
  payment_status :: string

text \<open>A table is the list of its rows in insertion order.\<close>

record 'r db =
  users :: "user list"
  contracts :: "'r contract list"
  approvals :: "approval list"
  service_reports :: "'r service_report list"
  invoices :: "'r invoice list"

text \<open>\<^verbatim>\<open>init_db\<close> on a file that does not exist yet: five empty tables.\<close>

definition init_db :: "'r db" where
  "init_db = \<lparr>users = [], contracts = [], approvals = [], service_reports = [], invoices = []\<rparr>"

section \<open>SQL statements\<close>

text \<open>
  The only statement of the program that can raise from the data alone is an INSERT whose
  primary key is already in the table (\<^verbatim>\<open>sqlite3.IntegrityError\<close>). Foreign keys are
  declared but SQLite does not enforce them unless the connection asks for it, and no
  connection of the program does. Every statement, a commit included, can also raise for a
  reason outside the data, such as a locked database file or a full disk
  (\<^verbatim>\<open>sqlite3.OperationalError\<close>).
\<close>

datatype error = IntegrityError | OperationalError

definition sql_insert :: "('a \<Rightarrow> string) \<Rightarrow> 'a \<Rightarrow> 'a list \<Rightarrow> error + 'a list" where
  "sql_insert pk row tbl =
     (if pk row \<in> set (map pk tbl) then Inl IntegrityError else Inr (tbl @ [row]))"

definition sql_update :: "('a \<Rightarrow> bool) \<Rightarrow> ('a \<Rightarrow> 'a) \<Rightarrow> 'a list \<Rightarrow> 'a list" where
  "sql_update wh upd tbl = map (\<lambda>r. if wh r then upd r else r) tbl"

definition sql_count :: "('a \<Rightarrow> bool) \<Rightarrow> 'a list \<Rightarrow> nat" where
  "sql_count wh tbl = length (filter wh tbl)"

text \<open>
  A call that writes returns \<open>Inr\<close> of the database it leaves when it runs to its end, and
  \<open>Inl\<close> of the exception together with the database it leaves when a statement raises:
  what was committed before the exception stays, what was written after the last commit
  is lost with the connection.
\<close>

type_synonym 'r outcome = "(error \<times> 'r db) + 'r db"

definition durable :: "'r outcome \<Rightarrow> 'r db" where
  "durable r = (case r of Inl (e, d) \<Rightarrow> d | Inr d \<Rightarrow> d)"

section \<open>Login\<close>

text \<open>
  \<^verbatim>\<open>get_user\<close>: the first row of
  \<^verbatim>\<open>SELECT * FROM users WHERE username=? AND password=?\<close>, or \<^verbatim>\<open>None\<close>. The second
  component is the database after the call.
\<close>

definition get_user :: "string \<Rightarrow> string \<Rightarrow> 'r db \<Rightarrow> user option \<times> 'r db" where
  "get_user uname pw d =
     (find (\<lambda>u. username u = uname \<and> password u = pw) (users d), d)"

definition get_user_role :: "string \<Rightarrow> 'r db \<Rightarrow> string option" where
  "get_user_role uid d = map_option role (find (\<lambda>u. user_id u = uid) (users d))"

section \<open>Demo users\<close>

text \<open>The list \<^verbatim>\<open>demo_users\<close> of \<^verbatim>\<open>seed_users\<close>: username, password, role.\<close>

definition demo_users :: "(string \<times> string \<times> string) list" where
  "demo_users =
     [(''manager_user'', ''manager_pass'', ''manager''),
      (''approver_user1'', ''approver_pass1'', ''approver''),
      (''approver_user2'', ''approver_pass2'', ''approver''),
      (''approver_user3'', ''approver_pass3'', ''approver''),
      (''finance_user'', ''finance_pass'', ''finance'')]"

text \<open>
  The loop of \<^verbatim>\<open>seed_users\<close>: a demo user whose username is in the table is skipped;
  otherwise a row is inserted under the next \<^verbatim>\<open>uuid4()\<close> of the call, \<open>k\<close> counting the
  ids drawn so far.
\<close>

fun seed_loop ::
  "(nat \<Rightarrow> string) \<Rightarrow> nat \<Rightarrow> (string \<times> string \<times> string) list \<Rightarrow> user list
     \<Rightarrow> error + user list" where
  "seed_loop uuid4 k [] tbl = Inr tbl"
| "seed_loop uuid4 k ((uname, pw, ro) # rest) tbl =
     (if list_ex (\<lambda>u. username u = uname) tbl then seed_loop uuid4 k rest tbl
      else case sql_insert user_id
                  \<lparr>user_id = uuid4 k, username = uname, password = pw, role = ro\<rparr> tbl of
             Inl e \<Rightarrow> Inl e
           | Inr tbl' \<Rightarrow> seed_loop uuid4 (Suc k) rest tbl')"

text \<open>\<^verbatim>\<open>seed_users\<close>: one commit, after the loop.\<close>

definition seed_users :: "(nat \<Rightarrow> string) \<Rightarrow> 'r db \<Rightarrow> 'r outcome" where
  "seed_users uuid4 d =
     (case seed_loop uuid4 0 demo_users (users d) of
        Inl e \<Rightarrow> Inl (e, d)
      | Inr tbl \<Rightarrow> Inr (d\<lparr>users := tbl\<rparr>))"

section \<open>Contracts\<close>

text \<open>
  \<^verbatim>\<open>create_contract\<close>; \<open>cid\<close> is the value of \<^verbatim>\<open>str(uuid.uuid4())\<close>, the dates are the
  strings \<^verbatim>\<open>str(start_date)\<close> and \<^verbatim>\<open>str(end_date)\<close>.
\<close>

definition create_contract ::
  "string \<Rightarrow> string \<Rightarrow> string \<Rightarrow> string \<Rightarrow> string \<Rightarrow> 'r \<Rightarrow> 'r db \<Rightarrow> 'r outcome" where
  "create_contract cid vendor desc sd ed bud d =
     (case sql_insert contract_id
        \<lparr>contract_id = cid, vendor_name = vendor, description = desc, start_date = sd,
         end_date = ed, budget = bud, status = ''Draft''\<rparr> (contracts d) of
        Inl e \<Rightarrow> Inl (e, d)
      | Inr tbl \<Rightarrow> Inr (d\<lparr>contracts := tbl\<rparr>))"

text \<open>
  The loop of \<^verbatim>\<open>submit_contract_for_approval\<close> over the fetched approver ids. The
  \<open>i\<close>-th turn of the loop inserts a row whose id is the \<open>i\<close>-th \<^verbatim>\<open>uuid4()\<close> of the call
  and whose timestamp is the \<open>i\<close>-th reading of the clock.
\<close>

fun insert_approvals ::
  "(nat \<Rightarrow> string) \<Rightarrow> (nat \<Rightarrow> string) \<Rightarrow> nat \<Rightarrow> string \<Rightarrow> string list \<Rightarrow> approval list
     \<Rightarrow> error + approval list" where
  "insert_approvals uuid4 now i cid [] tbl = Inr tbl"
| "insert_approvals uuid4 now i cid (u # us) tbl =
     (case sql_insert approval_id
        \<lparr>approval_id = uuid4 i, approval_contract_id = cid, approver_id = u,
         approval_status = ''Pending'', timestamp = now i\<rparr> tbl of
        Inl e \<Rightarrow> Inl e
      | Inr tbl' \<Rightarrow> insert_approvals uuid4 now (Suc i) cid us tbl')"

text \<open>\<^verbatim>\<open>SELECT user_id FROM users WHERE role='approver'\<close>\<close>

definition approvers :: "'r db \<Rightarrow> string list" where
  "approvers d = map user_id (filter (\<lambda>u. role u = ''approver'') (users d))"

text \<open>
  \<^verbatim>\<open>submit_contract_for_approval\<close>: the UPDATE is committed on its own (line 263), then
  the inserts run and are committed together (line 275).
\<close>

definition submit_contract_for_approval ::
  "(nat \<Rightarrow> string) \<Rightarrow> (nat \<Rightarrow> string) \<Rightarrow> string \<Rightarrow> 'r db \<Rightarrow> 'r outcome" where
  "submit_contract_for_approval uuid4 now cid d =
     (let d1 = d\<lparr>contracts :=
                  sql_update (\<lambda>c. contract_id c = cid) (\<lambda>c. c\<lparr>status := ''Pending Approval''\<rparr>)
                    (contracts d)\<rparr>
      in case insert_approvals uuid4 now 0 cid (approvers d1) (approvals d1) of
           Inl e \<Rightarrow> Inl (e, d1)
         | Inr tbl \<Rightarrow> Inr (d1\<lparr>approvals := tbl\<rparr>))"

section \<open>Approvals\<close>

text \<open>
  The rows of the join in \<^verbatim>\<open>review_contracts\<close> for the logged-in approver:
  (contract id, vendor, description, budget, approval id, approval status).
\<close>

definition review_contracts ::
  "string \<Rightarrow> 'r db \<Rightarrow> (string \<times> string \<times> string \<times> 'r \<times> string \<times> string) list" where
  "review_contracts uid d =
     concat (map (\<lambda>c. map (\<lambda>a. (contract_id c, vendor_name c, description c, budget c,
                                 approval_id a, approval_status a))
                        (filter (\<lambda>a. contract_id c = approval_contract_id a \<and> approver_id a = uid
                                     \<and> approval_status a = ''Pending'') (approvals d)))
                 (contracts d))"

text \<open>
  The two \<^verbatim>\<open>SELECT COUNT(*)\<close> queries of \<^verbatim>\<open>approve_contract\<close>, named after the
  variables that receive them.
\<close>

definition approved_count :: "string \<Rightarrow> 'r db \<Rightarrow> nat" where
  "approved_count cid d =
     sql_count (\<lambda>a. approval_contract_id a = cid \<and> approval_status a = ''Approved'')
       (approvals d)"

definition total_approvers :: "string \<Rightarrow> 'r db \<Rightarrow> nat" where
  "total_approvers cid d = sql_count (\<lambda>a. approval_contract_id a = cid) (approvals d)"

text \<open>
  \<^verbatim>\<open>approve_contract\<close>: the UPDATE of the approval is committed on its own (line 323),
  both counts are taken after it, and the UPDATE of the contract is committed at the end.
  No statement of the function can raise on the data, so the database the call leaves is
  the one after its last commit.
\<close>

definition approve_contract :: "string \<Rightarrow> string \<Rightarrow> 'r db \<Rightarrow> 'r db" where
  "approve_contract aid cid d =
     (let d1 = d\<lparr>approvals :=
                  sql_update (\<lambda>a. approval_id a = aid) (\<lambda>a. a\<lparr>approval_status := ''Approved''\<rparr>)
                    (approvals d)\<rparr>
      in if approved_count cid d1 = total_approvers cid d1
         then d1\<lparr>contracts :=
                   sql_update (\<lambda>c. contract_id c = cid) (\<lambda>c. c\<lparr>status := ''Active''\<rparr>)
                     (contracts d1)\<rparr>
         else d1)"

text \<open>
  \<^verbatim>\<open>reject_contract\<close>: two UPDATEs, one commit, no condition. The contract id is the
  one the caller passes; the function does not look it up from the approval.
\<close>

definition reject_contract :: "string \<Rightarrow> string \<Rightarrow> 'r db \<Rightarrow> 'r db" where
  "reject_contract aid cid d =
     (let d1 = d\<lparr>approvals :=
                  sql_update (\<lambda>a. approval_id a = aid) (\<lambda>a. a\<lparr>approval_status := ''Rejected''\<rparr>)
                    (approvals d)\<rparr>
      in d1\<lparr>contracts :=
               sql_update (\<lambda>c. contract_id c = cid) (\<lambda>c. c\<lparr>status := ''Rejected''\<rparr>)
                 (contracts d1)\<rparr>)"

section \<open>Service reports\<close>

text \<open>The listing at the top of \<^verbatim>\<open>manage_service_reports\<close>: every row, every column.\<close>

definition list_service_reports ::
  "'r db \<Rightarrow> (string \<times> string \<times> string \<times> string \<times> 'r \<times> 'r) list" where
  "list_service_reports d =
     map (\<lambda>r. (report_id r, report_contract_id r, service_date r, work_performed r,
               parts_cost r, labor_hours r)) (service_reports d)"

text \<open>The form handler of \<^verbatim>\<open>manage_service_reports\<close>; \<open>rid\<close> is \<^verbatim>\<open>str(uuid.uuid4())\<close>.\<close>

definition record_service_report ::
  "string \<Rightarrow> string \<Rightarrow> string \<Rightarrow> string \<Rightarrow> 'r \<Rightarrow> 'r \<Rightarrow> 'r db \<Rightarrow> 'r outcome" where
  "record_service_report rid cid sdate work pcost hours d =
     (case sql_insert report_id
        \<lparr>report_id = rid, report_contract_id = cid, service_date = sdate,
         work_performed = work, parts_cost = pcost, labor_hours = hours\<rparr> (service_reports d) of
        Inl e \<Rightarrow> Inl (e, d)
      | Inr tbl \<Rightarrow> Inr (d\<lparr>service_reports := tbl\<rparr>))"

section \<open>Invoices\<close>

text \<open>
  The form handler of \<^verbatim>\<open>manage_invoices\<close>; \<open>iid\<close> is \<^verbatim>\<open>str(uuid.uuid4())\<close> and
  \<open>today\<close> is \<^verbatim>\<open>str(datetime.date.today())\<close>.
\<close>

definition generate_invoice :: "string \<Rightarrow> string \<Rightarrow> string \<Rightarrow> 'r \<Rightarrow> 'r db \<Rightarrow> 'r outcome" where
  "generate_invoice iid today cid amt d =
     (case sql_insert invoice_id
        \<lparr>invoice_id = iid, invoice_contract_id = cid, amount = amt, invoice_date = today,
         payment_status = ''Pending''\<rparr> (invoices d) of
        Inl e \<Rightarrow> Inl (e, d)
      | Inr tbl \<Rightarrow> Inr (d\<lparr>invoices := tbl\<rparr>))"

text \<open>The UPDATE behind the "Mark Paid" button (lines 436 and 437).\<close>

definition mark_paid :: "string \<Rightarrow> 'r db \<Rightarrow> 'r db" where
  "mark_paid iid d =
     d\<lparr>invoices :=
         sql_update (\<lambda>v. invoice_id v = iid) (\<lambda>v. v\<lparr>payment_status := ''Paid''\<rparr>) (invoices d)\<rparr>"

section \<open>The pages\<close>

text \<open>
  One constructor per write of the program. \<open>SeedUsers\<close> is the start of every script run:
  \<^verbatim>\<open>main\<close> calls \<^verbatim>\<open>init_db\<close>, which leaves existing tables as they are, and
  \<^verbatim>\<open>seed_users\<close>, before it shows a page. The other constructors are the writes the
  pages trigger. The first argument of a gated action is \<^verbatim>\<open>st.session_state.user_id\<close>;
  the others are the arguments of the call, with the values of \<^verbatim>\<open>uuid4()\<close> and of the
  clock among them. A run of the program is a list of such writes, with \<open>SeedUsers\<close>
  before each page's write.
\<close>

datatype 'r action =
    SeedUsers "nat \<Rightarrow> string"
  | CreateContract string string string string string string 'r
  | Submit string "nat \<Rightarrow> string" "nat \<Rightarrow> string" string
  | Approve string string string
  | Reject string string string
  | RecordReport string string string string 'r 'r
  | GenerateInvoice string string string string 'r
  | MarkPaid string string

text \<open>The database an action leaves behind.\<close>

fun exec :: "'r action \<Rightarrow> 'r db \<Rightarrow> 'r db" where
  "exec (SeedUsers uuid4) d = durable (seed_users uuid4 d)"
| "exec (CreateContract u cid vendor desc sd ed bud) d =
     durable (create_contract cid vendor desc sd ed bud d)"
| "exec (Submit u uuid4 now cid) d = durable (submit_contract_for_approval uuid4 now cid d)"
| "exec (Approve u aid cid) d = approve_contract aid cid d"
| "exec (Reject u aid cid) d = reject_contract aid cid d"
| "exec (RecordReport rid cid sdate work pcost hours) d =
     durable (record_service_report rid cid sdate work pcost hours d)"
| "exec (GenerateInvoice u iid today cid amt) d = durable (generate_invoice iid today cid amt d)"
| "exec (MarkPaid u iid) d = mark_paid iid d"

text \<open>
  When the program performs the action: seeding happens on every run; \<^verbatim>\<open>app_layout\<close> shows a page to one role only (service
  reports to everybody), \<^verbatim>\<open>manage_contracts\<close> draws the submit button for a listed
  contract in status Draft, \<^verbatim>\<open>review_contracts\<close> draws the two decision buttons for each
  row of its join and passes that row's approval id and contract id, and
  \<^verbatim>\<open>manage_invoices\<close> draws the button for a listed invoice that is not Paid.
\<close>

fun offered :: "'r action \<Rightarrow> 'r db \<Rightarrow> bool" where
  "offered (SeedUsers uuid4) d = True"
| "offered (CreateContract u cid vendor desc sd ed bud) d =
     (get_user_role u d = Some ''manager'')"
| "offered (Submit u uuid4 now cid) d =
     (get_user_role u d = Some ''manager'' \<and>
      list_ex (\<lambda>c. contract_id c = cid \<and> status c = ''Draft'') (contracts d))"
| "offered (Approve u aid cid) d =
     (get_user_role u d = Some ''approver'' \<and>
      list_ex (\<lambda>(c, v, de, b, a, s). c = cid \<and> a = aid) (review_contracts u d))"
| "offered (Reject u aid cid) d =
     (get_user_role u d = Some ''approver'' \<and>
      list_ex (\<lambda>(c, v, de, b, a, s). c = cid \<and> a = aid) (review_contracts u d))"
| "offered (RecordReport rid cid sdate work pcost hours) d = True"
| "offered (GenerateInvoice u iid today cid amt) d = (get_user_role u d = Some ''finance'')"
| "offered (MarkPaid u iid) d =
     (get_user_role u d = Some ''finance'' \<and>
      list_ex (\<lambda>v. invoice_id v = iid \<and> payment_status v \<noteq> ''Paid'') (invoices d))"

fun run :: "'r action list \<Rightarrow> 'r db \<Rightarrow> 'r db" where
  "run [] d = d"
| "run (a # as) d = run as (exec a d)"

text \<open>\<open>all_along g as d\<close>: every action of \<open>as\<close> satisfies \<open>g\<close> in the database it starts from.\<close>

fun all_along :: "('r action \<Rightarrow> 'r db \<Rightarrow> bool) \<Rightarrow> 'r action list \<Rightarrow> 'r db \<Rightarrow> bool" where
  "all_along g [] d = True"
| "all_along g (a # as) d = (g a d \<and> all_along g as (exec a d))"

text \<open>
  One run of the script: \<^verbatim>\<open>main\<close> calls \<^verbatim>\<open>init_db\<close> and \<^verbatim>\<open>seed_users\<close>, and only
  then shows a page, whose handler performs the write \<open>a\<close> when the page offers it in the
  database the seeding has left. An exception in \<^verbatim>\<open>seed_users\<close> ends the run before any
  page is shown.
\<close>

definition main :: "(nat \<Rightarrow> string) \<Rightarrow> 'r action \<Rightarrow> 'r db \<Rightarrow> 'r db" where
  "main uuid4 a d =
     (case seed_users uuid4 d of
        Inl (e, d0) \<Rightarrow> d0
      | Inr d1 \<Rightarrow> if offered a d1 then exec a d1 else d1)"

text \<open>A session: one run of the script after the other, each with its own \<^verbatim>\<open>uuid4()\<close>.\<close>

fun session :: "((nat \<Rightarrow> string) \<times> 'r action) list \<Rightarrow> 'r db \<Rightarrow> 'r db" where
  "session [] d = d"
| "session ((uuid4, a) # ps) d = session ps (main uuid4 a d)"

text \<open>The users table holds the five demo users, in the order of the list, under any ids.\<close>

definition demo_seeded :: "'r db \<Rightarrow> bool" where
  "demo_seeded d = (map (\<lambda>u. (username u, password u, role u)) (users d) = demo_users)"

text \<open>
  The rows the loop of \<^verbatim>\<open>submit_contract_for_approval\<close> has inserted when it ends
  without an exception, for the fetched approver ids \<open>us\<close> and a loop that starts at turn
  \<open>i\<close>: the approver of turn \<open>k\<close> gets the \<open>k\<close>-th id and the \<open>k\<close>-th reading of the clock.
\<close>

definition pending_rows ::
  "(nat \<Rightarrow> string) \<Rightarrow> (nat \<Rightarrow> string) \<Rightarrow> nat \<Rightarrow> string \<Rightarrow> string list \<Rightarrow> approval list" where
  "pending_rows uuid4 now i cid us =
     map (\<lambda>(k, u). \<lparr>approval_id = uuid4 k, approval_contract_id = cid, approver_id = u,
                     approval_status = ''Pending'', timestamp = now k\<rparr>)
       (zip [i..<i + length us] us)"

text \<open>
  No INSERT of that loop raises exactly when the ids it draws differ from each other and
  from every id in the table.
\<close>

definition fresh_ids :: "(nat \<Rightarrow> string) \<Rightarrow> nat \<Rightarrow> nat \<Rightarrow> approval list \<Rightarrow> bool" where
  "fresh_ids uuid4 i n tbl =
     (distinct (map uuid4 [i..<i + n]) \<and>
      list_all (\<lambda>k. uuid4 k \<notin> approval_id ` set tbl) [i..<i + n])"

fun is_submit :: "'r action \<Rightarrow> bool" where
  "is_submit (Submit u uuid4 now cid) = True"
| "is_submit a = False"

section \<open>Properties of a database\<close>


text \<open>
  A decision names an approval row of the table together with the contract that row
  belongs to, as every call from \<^verbatim>\<open>review_contracts\<close> does; the other actions are not
  restricted.
\<close>

fun decides_existing :: "'r action \<Rightarrow> 'r db \<Rightarrow> bool" where
  "decides_existing (Approve u aid cid) d =
     list_ex (\<lambda>a. approval_id a = aid \<and> approval_contract_id a = cid) (approvals d)"
| "decides_existing (Reject u aid cid) d =
     list_ex (\<lambda>a. approval_id a = aid \<and> approval_contract_id a = cid) (approvals d)"
| "decides_existing a d = True"

text \<open>
  The action is a call of \<^verbatim>\<open>submit_contract_for_approval\<close>, \<^verbatim>\<open>approve_contract\<close> or
  \<^verbatim>\<open>reject_contract\<close> that is passed the contract id \<open>cid\<close>.
\<close>

fun touches :: "string \<Rightarrow> 'r action \<Rightarrow> bool" where
  "touches cid (Submit u uuid4 now cid') = (cid' = cid)"
| "touches cid (Approve u aid cid') = (cid' = cid)"
| "touches cid (Reject u aid cid') = (cid' = cid)"
| "touches cid a = False"

text \<open>The action is an approval passed the contract id \<open>cid\<close>.\<close>

fun approves :: "string \<Rightarrow> 'r action \<Rightarrow> bool" where
  "approves cid (Approve u aid cid') = (cid' = cid)"
| "approves cid a = False"

text \<open>
  The contract \<open>cid\<close> is in the table, every row with that id is in Pending Approval, and
  no approval row is for it.
\<close>

definition pending_without_approvals :: "string \<Rightarrow> 'r db \<Rightarrow> bool" where
  "pending_without_approvals cid d =
     (list_ex (\<lambda>c. contract_id c = cid) (contracts d) \<and>
      list_all (\<lambda>c. contract_id c = cid \<longrightarrow> status c = ''Pending Approval'') (contracts d) \<and>
      list_all (\<lambda>a. approval_contract_id a \<noteq> cid) (approvals d))"

section \<open>Example databases\<close>

text \<open>
  The database after \<^verbatim>\<open>init_db\<close> and \<^verbatim>\<open>seed_users\<close> on a new file, when the five
  calls of \<^verbatim>\<open>uuid4()\<close> returned \<open>u1\<close> to \<open>u5\<close>: the five demo users of the source, in
  its order.
\<close>

definition seeded :: "int db" where
  "seeded =
     \<lparr>users =
        [\<lparr>user_id = ''u1'', username = ''manager_user'', password = ''manager_pass'',
          role = ''manager''\<rparr>,
         \<lparr>user_id = ''u2'', username = ''approver_user1'', password = ''approver_pass1'',
          role = ''approver''\<rparr>,
         \<lparr>user_id = ''u3'', username = ''approver_user2'', password = ''approver_pass2'',
          role = ''approver''\<rparr>,
         \<lparr>user_id = ''u4'', username = ''approver_user3'', password = ''approver_pass3'',
          role = ''approver''\<rparr>,
         \<lparr>user_id = ''u5'', username = ''finance_user'', password = ''finance_pass'',
          role = ''finance''\<rparr>],
      contracts = [], approvals = [], service_reports = [], invoices = []\<rparr>"

text \<open>One contract, as \<^verbatim>\<open>create_contract\<close> leaves it when \<^verbatim>\<open>uuid4()\<close> returned \<open>c1\<close>.\<close>

definition contract1 :: "string \<Rightarrow> int contract" where
  "contract1 st =
     \<lparr>contract_id = ''c1'', vendor_name = ''v'', description = ''d'', start_date = ''s'',
      end_date = ''e'', budget = 1000, status = st\<rparr>"

definition approval1 :: "string \<Rightarrow> string \<Rightarrow> string \<Rightarrow> approval" where
  "approval1 aid uid st =
     \<lparr>approval_id = aid, approval_contract_id = ''c1'', approver_id = uid,
      approval_status = st, timestamp = ''t''\<rparr>"

text \<open>
  \<open>c1\<close> with its three approvals (ids \<open>a1\<close>, \<open>a2\<close>, \<open>a3\<close>, for the approvers \<open>u2\<close>, \<open>u3\<close>,
  \<open>u4\<close>) in the given statuses.
\<close>

definition with_contract1 :: "string \<Rightarrow> string \<Rightarrow> string \<Rightarrow> string \<Rightarrow> int db" where
  "with_contract1 st s1 s2 s3 =
     seeded\<lparr>contracts := [contract1 st],
            approvals := [approval1 ''a1'' ''u2'' s1, approval1 ''a2'' ''u3'' s2,
                          approval1 ''a3'' ''u4'' s3]\<rparr>"

text \<open>\<open>c1\<close> with a single approval, \<open>a1\<close> for the approver \<open>u2\<close>.\<close>

definition with_one_approval :: "string \<Rightarrow> string \<Rightarrow> int db" where
  "with_one_approval st s1 =
     seeded\<lparr>contracts := [contract1 st], approvals := [approval1 ''a1'' ''u2'' s1]\<rparr>"

text \<open>The values of \<^verbatim>\<open>uuid4()\<close> and of the clock in the examples.\<close>

definition ids3 :: "nat \<Rightarrow> string" where
  "ids3 i = (if i = 0 then ''a1'' else if i = 1 then ''a2'' else ''a3'')"

definition clock :: "nat \<Rightarrow> string" where
  "clock i = ''t''"

definition more_ids :: "nat \<Rightarrow> string" where
  "more_ids i = (if i = 0 then ''b1'' else if i = 1 then ''b2'' else ''b3'')"

text \<open>The five values of \<^verbatim>\<open>uuid4()\<close> in the first seeding of the examples.\<close>

definition ids5 :: "nat \<Rightarrow> string" where
  "ids5 i = (if i = 0 then ''u1'' else if i = 1 then ''u2'' else if i = 2 then ''u3''
             else if i = 3 then ''u4'' else ''u5'')"


text \<open>\<open>c1\<close> as \<^verbatim>\<open>create_contract\<close> leaves it on the seeded database.\<close>

definition draft1 :: "int db" where
  "draft1 = seeded\<lparr>contracts := [contract1 ''Draft'']\<rparr>"

text \<open>One invoice for \<open>c1\<close> in the given payment status.\<close>

definition with_invoice1 :: "string \<Rightarrow> int db" where
  "with_invoice1 st =
     seeded\<lparr>invoices :=
              [\<lparr>invoice_id = ''i1'', invoice_contract_id = ''c1'', amount = 500,
                invoice_date = ''2024-01-01'', payment_status = st\<rparr>]\<rparr>"


text \<open>
  A database with a manager and a finance user but no approver, and \<open>c1\<close> as a draft.
\<close>

definition unstaffed :: "int db" where
  "unstaffed =
     \<lparr>users =
        [\<lparr>user_id = ''u1'', username = ''manager_user'', password = ''manager_pass'',
          role = ''manager''\<rparr>,
         \<lparr>user_id = ''u5'', username = ''finance_user'', password = ''finance_pass'',
          role = ''finance''\<rparr>],
      contracts = [contract1 ''Draft''], approvals = [], service_reports = [], invoices = []\<rparr>"

section \<open>Facts about the SQL statements\<close>

lemma sql_update_length: "length (sql_update wh upd tbl) = length tbl"
  by (simp add: sql_update_def)

lemma sql_update_nth:
  "i < length tbl \<Longrightarrow> sql_update wh upd tbl ! i = (if wh (tbl ! i) then upd (tbl ! i) else tbl ! i)"
  by (simp add: sql_update_def)

lemma durable_simps [simp]: "durable (Inr d) = d" "durable (Inl (e, d)) = d"
  by (simp_all add: durable_def)

lemma seed_frame:
  "contracts (durable (seed_users uuid4 d)) = contracts d"
  "approvals (durable (seed_users uuid4 d)) = approvals d"
  "service_reports (durable (seed_users uuid4 d)) = service_reports d"
  "invoices (durable (seed_users uuid4 d)) = invoices d"
  by (simp_all add: seed_users_def split: sum.splits)

lemma create_contract_frame:
  "users (durable (create_contract cid vendor desc sd ed bud d)) = users d"
  "approvals (durable (create_contract cid vendor desc sd ed bud d)) = approvals d"
  "service_reports (durable (create_contract cid vendor desc sd ed bud d)) = service_reports d"
  "invoices (durable (create_contract cid vendor desc sd ed bud d)) = invoices d"
  by (simp_all add: create_contract_def sql_insert_def)

lemma submit_frame:
  "users (durable (submit_contract_for_approval uuid4 now cid d)) = users d"
  "service_reports (durable (submit_contract_for_approval uuid4 now cid d)) = service_reports d"
  "invoices (durable (submit_contract_for_approval uuid4 now cid d)) = invoices d"
  by (simp_all add: submit_contract_for_approval_def Let_def split: sum.splits)

lemma approve_frame:
  "users (approve_contract aid cid d) = users d"
  "service_reports (approve_contract aid cid d) = service_reports d"
  "invoices (approve_contract aid cid d) = invoices d"
  by (simp_all add: approve_contract_def Let_def)

lemma reject_frame:
  "users (reject_contract aid cid d) = users d"
  "service_reports (reject_contract aid cid d) = service_reports d"
  "invoices (reject_contract aid cid d) = invoices d"
  by (simp_all add: reject_contract_def Let_def)

lemma record_frame:
  "users (durable (record_service_report rid cid sdate work pcost hours d)) = users d"
  "contracts (durable (record_service_report rid cid sdate work pcost hours d)) = contracts d"
  "approvals (durable (record_service_report rid cid sdate work pcost hours d)) = approvals d"
  "invoices (durable (record_service_report rid cid sdate work pcost hours d)) = invoices d"
  by (simp_all add: record_service_report_def sql_insert_def)

lemma invoice_frame:
  "users (durable (generate_invoice iid today cid amt d)) = users d"
  "contracts (durable (generate_invoice iid today cid amt d)) = contracts d"
  "approvals (durable (generate_invoice iid today cid amt d)) = approvals d"
  "service_reports (durable (generate_invoice iid today cid amt d)) = service_reports d"
  by (simp_all add: generate_invoice_def sql_insert_def)

lemma mark_paid_frame:
  "users (mark_paid iid d) = users d"
  "contracts (mark_paid iid d) = contracts d"
  "approvals (mark_paid iid d) = approvals d"
  "service_reports (mark_paid iid d) = service_reports d"
  by (simp_all add: mark_paid_def)

lemma mark_paid_length: "length (invoices (mark_paid iid d)) = length (invoices d)"
  by (simp add: mark_paid_def sql_update_length)

lemma mark_paid_nth:
  "i < length (invoices d) \<Longrightarrow>
   invoices (mark_paid iid d) ! i =
     (if invoice_id (invoices d ! i) = iid
      then (invoices d ! i)\<lparr>payment_status := ''Paid''\<rparr> else invoices d ! i)"
  by (simp add: mark_paid_def sql_update_nth)

lemma mark_paid_twice: "mark_paid iid (mark_paid iid d) = mark_paid iid d"
  by (simp add: mark_paid_def sql_update_def)

text \<open>The loop of \<^verbatim>\<open>submit_contract_for_approval\<close> in closed form.\<close>

lemma upt_step: "[i..<i + Suc n] = i # [Suc i..<Suc i + n]"
  by (simp add: upt_conv_Cons del: upt_Suc)

lemma pending_rows_Nil [simp]: "pending_rows uuid4 now i cid [] = []"
  by (simp add: pending_rows_def)

lemma pending_rows_Cons:
  "pending_rows uuid4 now i cid (u # us) =
     \<lparr>approval_id = uuid4 i, approval_contract_id = cid, approver_id = u,
      approval_status = ''Pending'', timestamp = now i\<rparr> # pending_rows uuid4 now (Suc i) cid us"
  by (simp only: pending_rows_def length_Cons upt_step zip_Cons_Cons list.map prod.case)

lemma fresh_ids_Nil [simp]: "fresh_ids uuid4 i 0 tbl"
  by (simp add: fresh_ids_def)

lemma fresh_step:
  "(distinct (map f (i # xs)) \<and> list_all (\<lambda>k. f k \<notin> S) (i # xs)) \<longleftrightarrow>
   (f i \<notin> S \<and> distinct (map f xs) \<and> list_all (\<lambda>k. f k \<notin> insert (f i) S) xs)"
  by (auto simp: list_all_iff image_iff)

lemma fresh_ids_Suc:
  "fresh_ids uuid4 i (Suc n) tbl \<longleftrightarrow>
     uuid4 i \<notin> approval_id ` set tbl \<and>
     fresh_ids uuid4 (Suc i) n
       (tbl @ [\<lparr>approval_id = uuid4 i, approval_contract_id = cid, approver_id = u,
                approval_status = ''Pending'', timestamp = t\<rparr>])"
proof -
  have ids: "approval_id ` set (tbl @ [\<lparr>approval_id = uuid4 i, approval_contract_id = cid,
                approver_id = u, approval_status = ''Pending'', timestamp = t\<rparr>])
             = insert (uuid4 i) (approval_id ` set tbl)"
    by simp
  show ?thesis
    unfolding fresh_ids_def upt_step ids fresh_step ..
qed

lemma insert_approvals_result:
  "insert_approvals uuid4 now i cid us tbl =
     (if fresh_ids uuid4 i (length us) tbl
      then Inr (tbl @ pending_rows uuid4 now i cid us) else Inl IntegrityError)"
proof (induction us arbitrary: i tbl)
  case Nil
  then show ?case by simp
next
  case (Cons u us)
  show ?case
  proof (cases "uuid4 i \<in> approval_id ` set tbl")
    case True
    then show ?thesis
      by (simp add: sql_insert_def fresh_ids_Suc [of uuid4 i "length us" tbl cid u "now i"])
  next
    case False
    then show ?thesis
      by (simp add: sql_insert_def Cons.IH pending_rows_Cons
          fresh_ids_Suc [of uuid4 i "length us" tbl cid u "now i"])
  qed
qed

lemma pending_rows_length [simp]: "length (pending_rows uuid4 now i cid us) = length us"
  by (simp add: pending_rows_def)

lemma pending_rows_nth:
  "k < length us \<Longrightarrow>
   pending_rows uuid4 now i cid us ! k =
     \<lparr>approval_id = uuid4 (i + k), approval_contract_id = cid, approver_id = us ! k,
      approval_status = ''Pending'', timestamp = now (i + k)\<rparr>"
  by (simp add: pending_rows_def)

lemma approvers_submit [simp]:
  "approvers (d\<lparr>contracts := cs\<rparr>) = approvers d"
  by (simp add: approvers_def)

lemma submit_result:
  "submit_contract_for_approval uuid4 now cid d =
     (if fresh_ids uuid4 0 (length (approvers d)) (approvals d)
      then Inr (d\<lparr>contracts :=
                    sql_update (\<lambda>c. contract_id c = cid)
                      (\<lambda>c. c\<lparr>status := ''Pending Approval''\<rparr>) (contracts d),
                  approvals := approvals d @ pending_rows uuid4 now 0 cid (approvers d)\<rparr>)
      else Inl (IntegrityError,
                d\<lparr>contracts :=
                    sql_update (\<lambda>c. contract_id c = cid)
                      (\<lambda>c. c\<lparr>status := ''Pending Approval''\<rparr>) (contracts d)\<rparr>))"
  by (simp add: submit_contract_for_approval_def Let_def insert_approvals_result)

lemma sql_update_set:
  "r' \<in> set (sql_update wh upd tbl) \<longleftrightarrow> (\<exists>r \<in> set tbl. r' = (if wh r then upd r else r))"
  by (auto simp: sql_update_def)

lemma count_le: "length (filter (\<lambda>a. P a \<and> Q a) xs) \<le> length (filter P xs)"
  by (induction xs) auto

lemma count_eq_iff:
  "length (filter (\<lambda>a. P a \<and> Q a) xs) = length (filter P xs) \<longleftrightarrow> (\<forall>a \<in> set xs. P a \<longrightarrow> Q a)"
proof (induction xs)
  case Nil
  then show ?case by simp
next
  case (Cons x xs)
  have "length (filter (\<lambda>a. P a \<and> Q a) xs) \<le> length (filter P xs)"
    by (rule count_le)
  with Cons show ?case by auto
qed

lemma unanimous_iff:
  "approved_count cid d = total_approvers cid d \<longleftrightarrow>
     (\<forall>a \<in> set (approvals d). approval_contract_id a = cid \<longrightarrow> approval_status a = ''Approved'')"
  by (simp add: approved_count_def total_approvers_def sql_count_def count_eq_iff)

lemma pending_rows_set:
  "r \<in> set (pending_rows uuid4 now i cid us) \<Longrightarrow>
     approval_contract_id r = cid \<and> approval_status r = ''Pending'' \<and>
     approval_id r \<in> uuid4 ` {i..<i + length us}"
proof (induction us arbitrary: i)
  case Nil
  then show ?case by simp
next
  case (Cons u us)
  from Cons.prems have "r = \<lparr>approval_id = uuid4 i, approval_contract_id = cid, approver_id = u,
      approval_status = ''Pending'', timestamp = now i\<rparr> \<or> r \<in> set (pending_rows uuid4 now (Suc i) cid us)"
    by (simp add: pending_rows_Cons)
  then show ?case
  proof
    assume "r = \<lparr>approval_id = uuid4 i, approval_contract_id = cid, approver_id = u,
      approval_status = ''Pending'', timestamp = now i\<rparr>"
    then show ?thesis by simp
  next
    assume "r \<in> set (pending_rows uuid4 now (Suc i) cid us)"
    from Cons.IH [OF this] obtain k where
      k: "approval_contract_id r = cid" "approval_status r = ''Pending''"
         "approval_id r = uuid4 k" "Suc i \<le> k" "k < Suc i + length us"
      by auto
    then have "k \<in> {i..<i + length (u # us)}" by simp
    with k show ?thesis by blast
  qed
qed

lemma pending_rows_counts:
  "sql_count (\<lambda>a. approval_contract_id a = cid) (pending_rows uuid4 now i cid us) = length us"
  "sql_count (\<lambda>a. approval_contract_id a = cid \<and> approval_status a = ''Approved'')
     (pending_rows uuid4 now i cid us) = 0"
proof -
  have all: "\<forall>r \<in> set (pending_rows uuid4 now i cid us).
               approval_contract_id r = cid \<and> approval_status r = ''Pending''"
    using pending_rows_set [of _ uuid4 now i cid us] by blast
  then have "filter (\<lambda>a. approval_contract_id a = cid) (pending_rows uuid4 now i cid us)
          = pending_rows uuid4 now i cid us"
    by (intro filter_True) blast
  then show "sql_count (\<lambda>a. approval_contract_id a = cid) (pending_rows uuid4 now i cid us)
               = length us"
    by (simp add: sql_count_def)
  from all have "filter (\<lambda>a. approval_contract_id a = cid \<and> approval_status a = ''Approved'')
          (pending_rows uuid4 now i cid us) = []"
    by (intro filter_False) auto
  then show "sql_count (\<lambda>a. approval_contract_id a = cid \<and> approval_status a = ''Approved'')
     (pending_rows uuid4 now i cid us) = 0"
    by (simp add: sql_count_def)
qed

lemma approve_contract_contracts:
  "contracts (approve_contract aid cid d) =
     (if approved_count cid (approve_contract aid cid d) = total_approvers cid (approve_contract aid cid d)
      then sql_update (\<lambda>c. contract_id c = cid) (\<lambda>c. c\<lparr>status := ''Active''\<rparr>) (contracts d)
      else contracts d)"
  by (simp add: approve_contract_def Let_def approved_count_def total_approvers_def)

lemma approve_contract_approvals:
  "approvals (approve_contract aid cid d) =
     sql_update (\<lambda>a. approval_id a = aid) (\<lambda>a. a\<lparr>approval_status := ''Approved''\<rparr>) (approvals d)"
  by (simp add: approve_contract_def Let_def)

lemma exec_keeps_approval_rows:
  "\<not> is_submit a \<Longrightarrow>
   map (\<lambda>x. (approval_id x, approval_contract_id x, approver_id x)) (approvals (exec a d)) =
   map (\<lambda>x. (approval_id x, approval_contract_id x, approver_id x)) (approvals d)"
proof (cases a)
  case (Approve u aid cid)
  then show ?thesis
    by (simp add: approve_contract_approvals sql_update_def)
next
  case (Reject u aid cid)
  then show ?thesis
    by (simp add: reject_contract_def sql_update_def)
qed (simp_all add: seed_frame create_contract_frame record_frame invoice_frame
      mark_paid_frame)

lemma seeded_empty:
  "contracts seeded = []" "approvals seeded = []" "service_reports seeded = []"
  "invoices seeded = []"
  by (simp_all add: seeded_def)


lemma reject_contract_tables:
  "contracts (reject_contract aid cid d) =
     sql_update (\<lambda>c. contract_id c = cid) (\<lambda>c. c\<lparr>status := ''Rejected''\<rparr>) (contracts d)"
  "approvals (reject_contract aid cid d) =
     sql_update (\<lambda>a. approval_id a = aid) (\<lambda>a. a\<lparr>approval_status := ''Rejected''\<rparr>) (approvals d)"
  by (simp_all add: reject_contract_def)

lemma submit_tables:
  "contracts (durable (submit_contract_for_approval uuid4 now cid d)) =
     sql_update (\<lambda>c. contract_id c = cid) (\<lambda>c. c\<lparr>status := ''Pending Approval''\<rparr>) (contracts d)"
  "approvals (durable (submit_contract_for_approval uuid4 now cid d)) =
     (if fresh_ids uuid4 0 (length (approvers d)) (approvals d)
      then approvals d @ pending_rows uuid4 now 0 cid (approvers d) else approvals d)"
  by (simp_all add: submit_result)

lemma create_contract_tables:
  "contracts (durable (create_contract cid vendor desc sd ed bud d)) =
     (if cid \<in> contract_id ` set (contracts d) then contracts d
      else contracts d @
        [\<lparr>contract_id = cid, vendor_name = vendor, description = desc, start_date = sd,
          end_date = ed, budget = bud, status = ''Draft''\<rparr>])"
  by (simp add: create_contract_def sql_insert_def)



lemma in_concat_map_filter:
  "x \<in> set (concat (map (\<lambda>c. map (f c) (filter (P c) ys)) xs)) \<longleftrightarrow>
     (\<exists>c \<in> set xs. \<exists>a \<in> set ys. P c a \<and> x = f c a)"
  by auto

lemma offered_decision:
  assumes "list_ex (\<lambda>(c, v, de, b, a, s). c = cid \<and> a = aid) (review_contracts u d)"
  shows "\<exists>a \<in> set (approvals d).
           approval_id a = aid \<and> approval_contract_id a = cid \<and> approval_status a = ''Pending''"
proof -
  from assms obtain row where row: "row \<in> set (review_contracts u d)"
    and m: "(\<lambda>(c, v, de, b, a, s). c = cid \<and> a = aid) row"
    unfolding list_ex_iff by blast
  from row obtain c a where "c \<in> set (contracts d)" and a: "a \<in> set (approvals d)"
    and f: "contract_id c = approval_contract_id a \<and> approver_id a = u
            \<and> approval_status a = ''Pending''"
    and r: "row = (contract_id c, vendor_name c, description c, budget c,
                  approval_id a, approval_status a)"
    unfolding review_contracts_def in_concat_map_filter by blast
  from m r have "contract_id c = cid" "approval_id a = aid"
    by simp_all
  with a f show ?thesis by (intro bexI [of _ a]) simp_all
qed

lemma unanimous_after_approval:
  "(length (filter (\<lambda>a. approval_contract_id a = cid \<and> approval_status a = ''Approved'')
             (approvals (approve_contract aid cid d)))
      = length (filter (\<lambda>a. approval_contract_id a = cid) (approvals (approve_contract aid cid d))))
   \<longleftrightarrow> (\<forall>a \<in> set (approvals d).
          approval_contract_id a = cid \<and> approval_id a \<noteq> aid \<longrightarrow> approval_status a = ''Approved'')"
proof -
  let ?upd = "\<lambda>a. if approval_id a = aid then a\<lparr>approval_status := ''Approved''\<rparr> else a"
  have ap: "approvals (approve_contract aid cid d) = map ?upd (approvals d)"
    by (simp add: approve_contract_approvals sql_update_def)
  have "(\<forall>a' \<in> set (map ?upd (approvals d)).
            approval_contract_id a' = cid \<longrightarrow> approval_status a' = ''Approved'')
        \<longleftrightarrow> (\<forall>a \<in> set (approvals d).
            approval_contract_id (?upd a) = cid \<longrightarrow> approval_status (?upd a) = ''Approved'')"
    unfolding set_map by blast
  also have "\<dots> \<longleftrightarrow> (\<forall>a \<in> set (approvals d).
          approval_contract_id a = cid \<and> approval_id a \<noteq> aid \<longrightarrow> approval_status a = ''Approved'')"
  proof (intro ball_cong refl)
    fix a
    show "(approval_contract_id (?upd a) = cid \<longrightarrow> approval_status (?upd a) = ''Approved'')
          \<longleftrightarrow> (approval_contract_id a = cid \<and> approval_id a \<noteq> aid \<longrightarrow>
                approval_status a = ''Approved'')"
      by (cases "approval_id a = aid") simp_all
  qed
  finally show ?thesis
    unfolding ap count_eq_iff .
qed

lemma seed_users_empty:
  assumes "users d = []" and "seed_users uuid4 d = Inr d1"
  shows "demo_seeded d1"
  using assms
  by (auto simp: seed_users_def demo_users_def demo_seeded_def sql_insert_def
      split: if_splits sum.splits)

lemma seed_users_again:
  assumes "demo_seeded d"
  shows "seed_users uuid4 d = Inr d"
proof -
  have "map username (users d) = map fst demo_users"
    using assms [unfolded demo_seeded_def, THEN arg_cong, of "map fst"]
    by (simp add: comp_def)
  then have n: "username ` set (users d) = set (map fst demo_users)"
    by (metis set_map)
  have "list_ex (\<lambda>u. username u = x) (users d) \<longleftrightarrow> x \<in> username ` set (users d)" for x
    by (auto simp: list_ex_iff)
  then show ?thesis
    by (simp add: n seed_users_def demo_users_def)
qed

lemma demo_seeded_approvers:
  assumes "demo_seeded d"
  shows "length (approvers d) = 3"
proof -
  have "map role (users d) = map (\<lambda>x. snd (snd x)) demo_users"
    using assms [unfolded demo_seeded_def, THEN arg_cong, of "map (\<lambda>x. snd (snd x))"]
    by (simp add: comp_def)
  moreover have "length (approvers d) = length (filter (\<lambda>r. r = ''approver'') (map role (users d)))"
    by (simp add: approvers_def filter_map comp_def)
  ultimately show ?thesis
    by (simp add: demo_users_def)
qed

lemma users_exec:
  "users (exec a d) = users d \<or> (\<exists>uuid4. a = SeedUsers uuid4)"
  by (cases a) (simp_all add: create_contract_frame submit_frame approve_frame reject_frame
      record_frame invoice_frame mark_paid_frame)

lemma seeded_or_empty_main:
  assumes "users d = [] \<or> demo_seeded d"
  shows "users (main uuid4 a d) = [] \<or> demo_seeded (main uuid4 a d)"
proof (cases "seed_users uuid4 d")
  case (Inl x)
  then have "main uuid4 a d = d"
    by (cases x) (auto simp: main_def seed_users_def split: sum.splits)
  with assms show ?thesis by simp
next
  case (Inr d1)
  have s1: "demo_seeded d1"
  proof (cases "users d = []")
    case True
    then show ?thesis using Inr by (rule seed_users_empty)
  next
    case False
    with assms have "demo_seeded d" by simp
    with Inr show ?thesis by (simp add: seed_users_again)
  qed
  show ?thesis
  proof (cases "offered a d1")
    case False
    with Inr s1 show ?thesis by (simp add: main_def)
  next
    case True
    with Inr have m: "main uuid4 a d = exec a d1" by (simp add: main_def)
    from users_exec [of a d1] show ?thesis
    proof
      assume "users (exec a d1) = users d1"
      with s1 m show ?thesis by (simp add: demo_seeded_def)
    next
      assume "\<exists>u. a = SeedUsers u"
      then obtain u where "a = SeedUsers u" ..
      with s1 m show ?thesis by (simp add: seed_users_again)
    qed
  qed
qed

lemma seeded_or_empty_session:
  "users d = [] \<or> demo_seeded d \<Longrightarrow>
   users (session ps d) = [] \<or> demo_seeded (session ps d)"
proof (induction ps arbitrary: d)
  case Nil
  then show ?case by simp
next
  case (Cons p ps)
  obtain uuid4 a where p: "p = (uuid4, a)" by (cases p)
  from Cons.prems have "users (main uuid4 a d) = [] \<or> demo_seeded (main uuid4 a d)"
    by (rule seeded_or_empty_main)
  then show ?case
    unfolding p session.simps by (rule Cons.IH)
qed

lemma run_append: "run (as @ bs) d = run bs (run as d)"
  by (induction as arbitrary: d) simp_all

lemma all_along_append:
  "all_along g (as @ bs) d \<longleftrightarrow> all_along g as d \<and> all_along g bs (run as d)"
  by (induction as arbitrary: d) simp_all

lemma main_is_run:
  "\<exists>as. all_along offered as d \<and> main uuid4 a d = run as d"
proof (cases "seed_users uuid4 d")
  case (Inl x)
  then have "main uuid4 a d = run [SeedUsers uuid4] d"
    by (cases x) (simp add: main_def)
  moreover have "all_along offered [SeedUsers uuid4] d" by simp
  ultimately show ?thesis by blast
next
  case (Inr d1)
  show ?thesis
  proof (cases "offered a d1")
    case True
    with Inr have "main uuid4 a d = run [SeedUsers uuid4, a] d"
      "all_along offered [SeedUsers uuid4, a] d"
      by (simp_all add: main_def)
    then show ?thesis by blast
  next
    case False
    with Inr have "main uuid4 a d = run [SeedUsers uuid4] d"
      "all_along offered [SeedUsers uuid4] d"
      by (simp_all add: main_def)
    then show ?thesis by blast
  qed
qed

lemma session_is_run:
  "\<exists>as. all_along offered as d \<and> session ps d = run as d"
proof (induction ps arbitrary: d)
  case Nil
  have "all_along offered [] d \<and> session [] d = run [] d" by simp
  then show ?case by blast
next
  case (Cons p ps)
  obtain uuid4 a where p: "p = (uuid4, a)" by (cases p)
  obtain as where as: "all_along offered as d" "main uuid4 a d = run as d"
    using main_is_run by blast
  obtain bs where bs: "all_along offered bs (main uuid4 a d)"
    "session ps (main uuid4 a d) = run bs (main uuid4 a d)"
    using Cons.IH by blast
  from as bs have "all_along offered (as @ bs) d \<and> session (p # ps) d = run (as @ bs) d"
    by (simp add: p run_append all_along_append)
  then show ?case by blast
qed

lemma seed_new_file: "seed_users ids5 (init_db :: int db) = Inr seeded"
  by (simp add: seed_users_def demo_users_def sql_insert_def init_db_def seeded_def ids5_def)

section \<open>Login compares by equality\<close>

text \<open>
  Claim C9. \<^verbatim>\<open>get_user\<close> returns a stored user row exactly when some row of the users
  table has the given username and the given password, both compared by plain equality;
  the row it returns is such a row; it returns \<^verbatim>\<open>None\<close> exactly when there is none; and
  the database after the call is the database before it.
\<close>

theorem get_user_exact_match:
  "(\<forall>u. fst (get_user uname pw d) = Some u \<longrightarrow>
        u \<in> set (users d) \<and> username u = uname \<and> password u = pw) \<and>
   ((\<exists>u. fst (get_user uname pw d) = Some u) \<longleftrightarrow>
      (\<exists>u \<in> set (users d). username u = uname \<and> password u = pw)) \<and>
   (fst (get_user uname pw d) = None \<longleftrightarrow>
      \<not> (\<exists>u \<in> set (users d). username u = uname \<and> password u = pw)) \<and>
   snd (get_user uname pw d) = d"
proof (cases "find (\<lambda>u. username u = uname \<and> password u = pw) (users d)")
  case None
  then have "\<not> (\<exists>u \<in> set (users d). username u = uname \<and> password u = pw)"
    by (simp add: find_None_iff)
  with None show ?thesis
    by (simp add: get_user_def)
next
  case (Some v)
  then have "v \<in> set (users d) \<and> username v = uname \<and> password v = pw"
    by (auto simp: find_Some_iff)
  with Some show ?thesis
    by (auto simp: get_user_def)
qed

text \<open>
  On the seeded database the manager logs in with the stored password, and not with a
  password that differs from it in the case of one letter.
\<close>

theorem get_user_exact_match_witness:
  "fst (get_user ''manager_user'' ''manager_pass'' seeded) = Some (hd (users seeded)) \<and>
   fst (get_user ''manager_user'' ''Manager_pass'' seeded) = None"
proof -
  have m: "hd (users seeded) \<in> set (users seeded)"
          "username (hd (users seeded)) = ''manager_user''"
          "password (hd (users seeded)) = ''manager_pass''"
    by (simp_all add: seeded_def)
  then have "\<exists>u \<in> set (users seeded). username u = ''manager_user'' \<and> password u = ''manager_pass''"
    by blast
  then obtain u where u: "fst (get_user ''manager_user'' ''manager_pass'' seeded) = Some u"
    using get_user_exact_match [of "''manager_user''" "''manager_pass''" seeded] by blast
  then have "u \<in> set (users seeded) \<and> username u = ''manager_user''"
    using get_user_exact_match [of "''manager_user''" "''manager_pass''" seeded] by blast
  then have "u = hd (users seeded)"
    by (auto simp: seeded_def)
  moreover have "\<not> (\<exists>u \<in> set (users seeded). username u = ''manager_user'' \<and> password u = ''Manager_pass'')"
    by (simp add: seeded_def)
  then have "fst (get_user ''manager_user'' ''Manager_pass'' seeded) = None"
    using get_user_exact_match [of "''manager_user''" "''Manager_pass''" seeded] by blast
  ultimately show ?thesis using u by simp
qed

section \<open>What a decision writes\<close>

text \<open>
  Claim C2. \<^verbatim>\<open>reject_contract\<close> sets the approval with the given id to Rejected and
  every contract row with the given contract id to Rejected, whatever the other approvals
  say; every other approval row, every other contract row and the three other tables are
  left as they were.
\<close>

theorem reject_contract_effect:
  "length (approvals (reject_contract aid cid d)) = length (approvals d) \<and>
   (\<forall>i < length (approvals d).
      approvals (reject_contract aid cid d) ! i =
        (if approval_id (approvals d ! i) = aid
         then (approvals d ! i)\<lparr>approval_status := ''Rejected''\<rparr>
         else approvals d ! i)) \<and>
   length (contracts (reject_contract aid cid d)) = length (contracts d) \<and>
   (\<forall>i < length (contracts d).
      contracts (reject_contract aid cid d) ! i =
        (if contract_id (contracts d ! i) = cid
         then (contracts d ! i)\<lparr>status := ''Rejected''\<rparr>
         else contracts d ! i)) \<and>
   users (reject_contract aid cid d) = users d \<and>
   service_reports (reject_contract aid cid d) = service_reports d \<and>
   invoices (reject_contract aid cid d) = invoices d"
  by (simp add: reject_contract_def sql_update_length sql_update_nth)

text \<open>
  One approver has approved, two have not decided; the third rejects. The contract is
  Rejected, the first approval is still Approved and the second still Pending.
\<close>

theorem reject_contract_effect_witness:
  "approvals (reject_contract ''a3'' ''c1''
      (with_contract1 ''Pending Approval'' ''Approved'' ''Pending'' ''Pending'')) ! 0
     = approval1 ''a1'' ''u2'' ''Approved'' \<and>
   approvals (reject_contract ''a3'' ''c1''
      (with_contract1 ''Pending Approval'' ''Approved'' ''Pending'' ''Pending'')) ! 1
     = approval1 ''a2'' ''u3'' ''Pending'' \<and>
   approvals (reject_contract ''a3'' ''c1''
      (with_contract1 ''Pending Approval'' ''Approved'' ''Pending'' ''Pending'')) ! 2
     = approval1 ''a3'' ''u4'' ''Rejected'' \<and>
   contracts (reject_contract ''a3'' ''c1''
      (with_contract1 ''Pending Approval'' ''Approved'' ''Pending'' ''Pending'')) ! 0
     = contract1 ''Rejected''"
proof -
  let ?d = "with_contract1 ''Pending Approval'' ''Approved'' ''Pending'' ''Pending''"
  note eff = reject_contract_effect [of "''a3''" "''c1''" ?d]
  have la: "length (approvals ?d) = 3" and lc: "length (contracts ?d) = 1"
    by (simp_all add: with_contract1_def)
  show ?thesis
    using eff la lc by (simp add: with_contract1_def approval1_def contract1_def)
qed

text \<open>
  Claim C1. \<^verbatim>\<open>approve_contract\<close> sets the approval with the given id to Approved and
  leaves the other approvals alone. It then counts, in the approvals table it has just
  written, the rows with the given contract id whose status is Approved, and the rows with
  the given contract id whatever their status. When the two numbers are equal, the rows
  of the contract are set to Active; when they differ, every contract row is left
  unchanged. The two numbers are equal exactly when every approval of the contract other
  than the one being approved was Approved already, so a contract with a single approval
  becomes Active on that approval, and one with no approval of another id in the way
  becomes Active whatever its status was. The three other tables are unchanged.
\<close>

theorem approve_contract_unanimity:
  "length (approvals (approve_contract aid cid d)) = length (approvals d) \<and>
   (\<forall>i < length (approvals d).
      approvals (approve_contract aid cid d) ! i =
        (if approval_id (approvals d ! i) = aid
         then (approvals d ! i)\<lparr>approval_status := ''Approved''\<rparr>
         else approvals d ! i)) \<and>
   length (contracts (approve_contract aid cid d)) = length (contracts d) \<and>
   (\<forall>i < length (contracts d).
      contracts (approve_contract aid cid d) ! i =
        (if length (filter (\<lambda>a. approval_contract_id a = cid \<and> approval_status a = ''Approved'')
                      (approvals (approve_contract aid cid d)))
              = length (filter (\<lambda>a. approval_contract_id a = cid)
                          (approvals (approve_contract aid cid d)))
            \<and> contract_id (contracts d ! i) = cid
         then (contracts d ! i)\<lparr>status := ''Active''\<rparr>
         else contracts d ! i)) \<and>
   (length (filter (\<lambda>a. approval_contract_id a = cid \<and> approval_status a = ''Approved'')
              (approvals (approve_contract aid cid d)))
      = length (filter (\<lambda>a. approval_contract_id a = cid) (approvals (approve_contract aid cid d)))
    \<longleftrightarrow> (\<forall>a \<in> set (approvals d).
           approval_contract_id a = cid \<and> approval_id a \<noteq> aid \<longrightarrow>
           approval_status a = ''Approved'')) \<and>
   users (approve_contract aid cid d) = users d \<and>
   service_reports (approve_contract aid cid d) = service_reports d \<and>
   invoices (approve_contract aid cid d) = invoices d"
proof -
  have cs: "\<forall>i < length (contracts d).
      contracts (approve_contract aid cid d) ! i =
        (if length (filter (\<lambda>a. approval_contract_id a = cid \<and> approval_status a = ''Approved'')
                      (approvals (approve_contract aid cid d)))
              = length (filter (\<lambda>a. approval_contract_id a = cid)
                          (approvals (approve_contract aid cid d)))
            \<and> contract_id (contracts d ! i) = cid
         then (contracts d ! i)\<lparr>status := ''Active''\<rparr>
         else contracts d ! i)"
    by (simp add: approve_contract_def Let_def sql_update_nth approved_count_def
        total_approvers_def sql_count_def)
  have rest: "length (approvals (approve_contract aid cid d)) = length (approvals d)"
    "\<forall>i < length (approvals d).
      approvals (approve_contract aid cid d) ! i =
        (if approval_id (approvals d ! i) = aid
         then (approvals d ! i)\<lparr>approval_status := ''Approved''\<rparr>
         else approvals d ! i)"
    "length (contracts (approve_contract aid cid d)) = length (contracts d)"
    by (simp_all add: approve_contract_def Let_def sql_update_length sql_update_nth)
  show ?thesis
    by (intro conjI rest cs unanimous_after_approval approve_frame)
qed

text \<open>
  Three approvers: after the second approval of three the contract is still Pending
  Approval, after the third it is Active. One approver: the single approval makes the
  contract Active. A Rejected contract whose first approval is Rejected stays Rejected
  when the second approval is approved.
\<close>

theorem approve_contract_unanimity_witness:
  "status (contracts (approve_contract ''a2'' ''c1''
      (with_contract1 ''Pending Approval'' ''Approved'' ''Pending'' ''Pending'')) ! 0)
     = ''Pending Approval'' \<and>
   status (contracts (approve_contract ''a3'' ''c1''
      (with_contract1 ''Pending Approval'' ''Approved'' ''Approved'' ''Pending'')) ! 0)
     = ''Active'' \<and>
   status (contracts (approve_contract ''a1'' ''c1''
      (with_one_approval ''Pending Approval'' ''Pending'')) ! 0)
     = ''Active'' \<and>
   status (contracts (approve_contract ''a2'' ''c1''
      (with_contract1 ''Rejected'' ''Rejected'' ''Pending'' ''Approved'')) ! 0)
     = ''Rejected''"
proof -
  let ?d2 = "with_contract1 ''Pending Approval'' ''Approved'' ''Pending'' ''Pending''"
  let ?d3 = "with_contract1 ''Pending Approval'' ''Approved'' ''Approved'' ''Pending''"
  let ?d1 = "with_one_approval ''Pending Approval'' ''Pending''"
  let ?dr = "with_contract1 ''Rejected'' ''Rejected'' ''Pending'' ''Approved''"
  let ?P = "\<lambda>aid d. \<forall>a \<in> set (approvals d).
           approval_contract_id a = ''c1'' \<and> approval_id a \<noteq> aid \<longrightarrow>
           approval_status a = ''Approved''"
  have len: "0 < length (contracts ?d2)" "0 < length (contracts ?d3)"
    "0 < length (contracts ?d1)" "0 < length (contracts ?dr)"
    by (simp_all add: with_contract1_def with_one_approval_def)
  have row: "contracts ?d2 ! 0 = contract1 ''Pending Approval''"
    "contracts ?d3 ! 0 = contract1 ''Pending Approval''"
    "contracts ?d1 ! 0 = contract1 ''Pending Approval''"
    "contracts ?dr ! 0 = contract1 ''Rejected''"
    by (simp_all add: with_contract1_def with_one_approval_def)
  have others: "\<not> ?P ''a2'' ?d2" "?P ''a3'' ?d3" "?P ''a1'' ?d1" "\<not> ?P ''a2'' ?dr"
    by (simp_all add: with_contract1_def with_one_approval_def approval1_def)
  have "contracts (approve_contract ''a2'' ''c1'' ?d2) ! 0 = contract1 ''Pending Approval''"
    using approve_contract_unanimity [of "''a2''" "''c1''" ?d2] len(1) others(1) row(1)
    by simp
  moreover
  have "contracts (approve_contract ''a3'' ''c1'' ?d3) ! 0
          = (contract1 ''Pending Approval'')\<lparr>status := ''Active''\<rparr>"
    using approve_contract_unanimity [of "''a3''" "''c1''" ?d3] len(2) others(2) row(2)
    by (simp add: contract1_def)
  moreover
  have "contracts (approve_contract ''a1'' ''c1'' ?d1) ! 0
          = (contract1 ''Pending Approval'')\<lparr>status := ''Active''\<rparr>"
    using approve_contract_unanimity [of "''a1''" "''c1''" ?d1] len(3) others(3) row(3)
    by (simp add: contract1_def)
  moreover
  have "contracts (approve_contract ''a2'' ''c1'' ?dr) ! 0 = contract1 ''Rejected''"
    using approve_contract_unanimity [of "''a2''" "''c1''" ?dr] len(4) others(4) row(4)
    by simp
  ultimately show ?thesis
    by (simp add: contract1_def)
qed

section \<open>Service reports are appended\<close>

text \<open>
  Claim C8. Whatever the contract id, the date, the narrative, the parts cost and the labor
  hours are, and whether or not a contract with that id exists, the form handler of the
  service reports page succeeds when \<^verbatim>\<open>uuid4()\<close> returns an id no report has yet: it
  appends exactly one row with that id and the given values, the listing of the page
  shows the new row after the old ones, and the four other tables are unchanged. When
  the id is that of a report already stored, the INSERT raises and the database is left
  as it was: the handler succeeds only with an unused id.
\<close>

theorem record_service_report_appends:
  "(rid \<notin> report_id ` set (service_reports d) \<longrightarrow>
      record_service_report rid cid sdate work pcost hours d =
        Inr (d\<lparr>service_reports := service_reports d @
               [\<lparr>report_id = rid, report_contract_id = cid, service_date = sdate,
                 work_performed = work, parts_cost = pcost, labor_hours = hours\<rparr>]\<rparr>) \<and>
      list_service_reports (durable (record_service_report rid cid sdate work pcost hours d)) =
        list_service_reports d @ [(rid, cid, sdate, work, pcost, hours)] \<and>
      users (durable (record_service_report rid cid sdate work pcost hours d)) = users d \<and>
      contracts (durable (record_service_report rid cid sdate work pcost hours d)) = contracts d \<and>
      approvals (durable (record_service_report rid cid sdate work pcost hours d)) = approvals d \<and>
      invoices (durable (record_service_report rid cid sdate work pcost hours d)) = invoices d) \<and>
   (rid \<in> report_id ` set (service_reports d) \<longrightarrow>
      record_service_report rid cid sdate work pcost hours d = Inl (IntegrityError, d))"
  by (simp add: record_service_report_def sql_insert_def list_service_reports_def)

text \<open>
  A report against the contract id \<open>c9\<close> on a database that has no contract at all, then
  a second report under the id of the first: the listing still holds the first report only.
\<close>

theorem record_service_report_appends_witness:
  "''r1'' \<notin> report_id ` set (service_reports seeded) \<and>
   ''c9'' \<notin> contract_id ` set (contracts seeded) \<and>
   list_service_reports
     (durable (record_service_report ''r1'' ''c9'' ''2024-01-01'' ''pump'' 10 2 seeded)) =
     [(''r1'', ''c9'', ''2024-01-01'', ''pump'', 10, 2)] \<and>
   ''r1'' \<in> report_id ` set (service_reports
     (durable (record_service_report ''r1'' ''c9'' ''2024-01-01'' ''pump'' 10 2 seeded))) \<and>
   list_service_reports
     (durable (record_service_report ''r1'' ''c8'' ''2024-01-02'' ''valve'' 3 1
        (durable (record_service_report ''r1'' ''c9'' ''2024-01-01'' ''pump'' 10 2 seeded)))) =
     [(''r1'', ''c9'', ''2024-01-01'', ''pump'', 10, 2)]"
proof -
  let ?d1 = "durable (record_service_report ''r1'' ''c9'' ''2024-01-01'' ''pump'' 10 2 seeded)"
  have fresh: "''r1'' \<notin> report_id ` set (service_reports seeded)"
    by (simp add: seeded_def)
  have none: "''c9'' \<notin> contract_id ` set (contracts seeded)"
    by (simp add: seeded_def)
  have empty: "list_service_reports seeded = []"
    by (simp add: seeded_def list_service_reports_def)
  note first = record_service_report_appends [of "''r1''" seeded "''c9''" "''2024-01-01''" "''pump''" 10 2]
  from first fresh have l1: "list_service_reports ?d1 =
        list_service_reports seeded @ [(''r1'', ''c9'', ''2024-01-01'', ''pump'', 10, 2)]"
    by blast
  from first fresh have "record_service_report ''r1'' ''c9'' ''2024-01-01'' ''pump'' 10 2 seeded =
        Inr (seeded\<lparr>service_reports := service_reports seeded @
               [\<lparr>report_id = ''r1'', report_contract_id = ''c9'', service_date = ''2024-01-01'',
                 work_performed = ''pump'', parts_cost = 10, labor_hours = 2\<rparr>]\<rparr>)"
    by blast
  then have used: "''r1'' \<in> report_id ` set (service_reports ?d1)"
    by simp
  then have "record_service_report ''r1'' ''c8'' ''2024-01-02'' ''valve'' 3 1 ?d1
               = Inl (IntegrityError, ?d1)"
    using record_service_report_appends [of "''r1''" ?d1 "''c8''" "''2024-01-02''" "''valve''" 3 1]
    by blast
  then have "durable (record_service_report ''r1'' ''c8'' ''2024-01-02'' ''valve'' 3 1 ?d1) = ?d1"
    by simp
  with l1 empty fresh none used show ?thesis by simp
qed

section \<open>Paid invoices stay paid\<close>

lemma exec_keeps_paid:
  assumes "i < length (invoices d)" "payment_status (invoices d ! i) = ''Paid''"
  shows "i < length (invoices (exec a d)) \<and> invoices (exec a d) ! i = invoices d ! i"
proof (cases a)
  case (GenerateInvoice u iid today cid amt)
  then show ?thesis using assms
    by (simp add: generate_invoice_def sql_insert_def nth_append)
next
  case (MarkPaid u iid)
  then show ?thesis using assms
    by (simp add: mark_paid_length mark_paid_nth)
qed (simp_all add: assms seed_frame create_contract_frame submit_frame approve_frame
      reject_frame record_frame)

lemma run_keeps_paid:
  "i < length (invoices d) \<Longrightarrow> payment_status (invoices d ! i) = ''Paid'' \<Longrightarrow>
   i < length (invoices (run as d)) \<and> invoices (run as d) ! i = invoices d ! i"
proof (induction as arbitrary: d)
  case Nil
  then show ?case by simp
next
  case (Cons a as)
  from exec_keeps_paid [OF Cons.prems, of a]
  have k: "i < length (invoices (exec a d))" "invoices (exec a d) ! i = invoices d ! i"
    by simp_all
  with Cons.prems have "payment_status (invoices (exec a d) ! i) = ''Paid''"
    by simp
  from Cons.IH [OF k(1) this] k(2) show ?case
    by simp
qed

text \<open>
  Claim C7. The UPDATE behind the "Mark Paid" button sets the payment status of the
  invoice with the given id to Paid and changes no other field, no other invoice and no
  other table. Doing it a second time changes nothing. No sequence of writes of the
  program, of whatever kind and with whatever arguments, changes an invoice row that is
  Paid: it stays in its place with all its fields.
\<close>

theorem mark_paid_one_way:
  "length (invoices (mark_paid iid d)) = length (invoices d) \<and>
   (\<forall>i < length (invoices d).
      invoices (mark_paid iid d) ! i =
        (if invoice_id (invoices d ! i) = iid
         then (invoices d ! i)\<lparr>payment_status := ''Paid''\<rparr> else invoices d ! i)) \<and>
   users (mark_paid iid d) = users d \<and> contracts (mark_paid iid d) = contracts d \<and>
   approvals (mark_paid iid d) = approvals d \<and>
   service_reports (mark_paid iid d) = service_reports d \<and>
   mark_paid iid (mark_paid iid d) = mark_paid iid d \<and>
   (\<forall>as. \<forall>i < length (invoices d). payment_status (invoices d ! i) = ''Paid'' \<longrightarrow>
      i < length (invoices (run as d)) \<and> invoices (run as d) ! i = invoices d ! i)"
  using run_keeps_paid [of _ d]
  by (simp add: mark_paid_length mark_paid_nth mark_paid_frame mark_paid_twice)

text \<open>
  The invoice of 500 for \<open>c1\<close> goes from Pending to Paid; marking it again leaves the
  database as it is; and it is still the same Paid row after a further "Mark Paid", an
  invoice generated under its own id (which raises) and one under a new id.
\<close>

theorem mark_paid_one_way_witness:
  "invoices (mark_paid ''i1'' (with_invoice1 ''Pending'')) = invoices (with_invoice1 ''Paid'') \<and>
   mark_paid ''i1'' (with_invoice1 ''Paid'') = with_invoice1 ''Paid'' \<and>
   invoices (run [MarkPaid ''u5'' ''i1'', GenerateInvoice ''u5'' ''i1'' ''2024-02-02'' ''c1'' 7,
                  GenerateInvoice ''u5'' ''i2'' ''2024-02-02'' ''c1'' 7]
               (with_invoice1 ''Paid'')) ! 0
     = invoices (with_invoice1 ''Paid'') ! 0"
proof -
  note pending = mark_paid_one_way [of "''i1''" "with_invoice1 ''Pending''"]
  note paid = mark_paid_one_way [of "''i1''" "with_invoice1 ''Paid''"]
  have l: "length (invoices (with_invoice1 ''Pending'')) = 1"
          "length (invoices (with_invoice1 ''Paid'')) = 1"
    by (simp_all add: with_invoice1_def)
  have "length (invoices (mark_paid ''i1'' (with_invoice1 ''Pending''))) = 1"
    using pending l by simp
  moreover have "invoices (mark_paid ''i1'' (with_invoice1 ''Pending'')) ! 0
                   = invoices (with_invoice1 ''Paid'') ! 0"
    using pending l by (simp add: with_invoice1_def)
  ultimately have a: "invoices (mark_paid ''i1'' (with_invoice1 ''Pending''))
                        = invoices (with_invoice1 ''Paid'')"
    using l by (simp add: list_eq_iff_nth_eq)
  have b: "mark_paid ''i1'' (with_invoice1 ''Paid'') = with_invoice1 ''Paid''"
    by (simp add: mark_paid_def sql_update_def with_invoice1_def)
  have p: "payment_status (invoices (with_invoice1 ''Paid'') ! 0) = ''Paid''"
    by (simp add: with_invoice1_def)
  have "\<forall>as. \<forall>i < length (invoices (with_invoice1 ''Paid'')).
          payment_status (invoices (with_invoice1 ''Paid'') ! i) = ''Paid'' \<longrightarrow>
          i < length (invoices (run as (with_invoice1 ''Paid''))) \<and>
          invoices (run as (with_invoice1 ''Paid'')) ! i = invoices (with_invoice1 ''Paid'') ! i"
    using paid by blast
  with l(2) p have c: "\<And>as. invoices (run as (with_invoice1 ''Paid'')) ! 0
                          = invoices (with_invoice1 ''Paid'') ! 0"
    by simp
  from a b c show ?thesis by blast
qed

section \<open>What a submission writes\<close>

text \<open>
  Claim C3. For every contract id, when the ids \<^verbatim>\<open>uuid4()\<close> returns are new,
  \<^verbatim>\<open>submit_contract_for_approval\<close> runs to its end; it sets the status of the contract
  with that id to Pending Approval and leaves the other contracts alone; it appends to the
  approvals table exactly one row for each user whose role is approver at the moment of
  the call, in the order of the users table, each for this contract, with status Pending
  and the clock's reading as its timestamp; and it leaves users, service reports and
  invoices unchanged. The rows are a snapshot: no write other than a submission adds,
  removes or reassigns an approval row, whatever the users table holds by then.
\<close>

theorem submit_creates_pending_approvals:
  assumes fresh: "fresh_ids uuid4 0 (length (approvers d)) (approvals d)"
  shows "\<exists>d' rows.
           submit_contract_for_approval uuid4 now cid d = Inr d' \<and>
           length (contracts d') = length (contracts d) \<and>
           (\<forall>i < length (contracts d).
              contracts d' ! i =
                (if contract_id (contracts d ! i) = cid
                 then (contracts d ! i)\<lparr>status := ''Pending Approval''\<rparr>
                 else contracts d ! i)) \<and>
           approvals d' = approvals d @ rows \<and>
           length rows = length (filter (\<lambda>u. role u = ''approver'') (users d)) \<and>
           (\<forall>k < length rows.
              rows ! k =
                \<lparr>approval_id = uuid4 k, approval_contract_id = cid,
                 approver_id = user_id (filter (\<lambda>u. role u = ''approver'') (users d) ! k),
                 approval_status = ''Pending'', timestamp = now k\<rparr>) \<and>
           users d' = users d \<and> service_reports d' = service_reports d \<and>
           invoices d' = invoices d \<and>
           (\<forall>a d2. \<not> is_submit a \<longrightarrow>
              map (\<lambda>x. (approval_id x, approval_contract_id x, approver_id x))
                  (approvals (exec a (d2 :: 'r db))) =
              map (\<lambda>x. (approval_id x, approval_contract_id x, approver_id x)) (approvals d2))"
proof -
  let ?cs = "sql_update (\<lambda>c. contract_id c = cid) (\<lambda>c. c\<lparr>status := ''Pending Approval''\<rparr>)
               (contracts d)"
  let ?rows = "pending_rows uuid4 now 0 cid (approvers d)"
  let ?d' = "d\<lparr>contracts := ?cs, approvals := approvals d @ ?rows\<rparr>"
  have len: "length (approvers d) = length (filter (\<lambda>u. role u = ''approver'') (users d))"
    by (simp add: approvers_def)
  have r: "submit_contract_for_approval uuid4 now cid d = Inr ?d'"
    using fresh by (simp add: submit_result)
  have rows: "\<forall>k < length ?rows.
                ?rows ! k =
                  \<lparr>approval_id = uuid4 k, approval_contract_id = cid,
                   approver_id = user_id (filter (\<lambda>u. role u = ''approver'') (users d) ! k),
                   approval_status = ''Pending'', timestamp = now k\<rparr>"
    using len by (simp add: pending_rows_nth approvers_def)
  have cs: "\<forall>i < length (contracts d).
              contracts ?d' ! i =
                (if contract_id (contracts d ! i) = cid
                 then (contracts d ! i)\<lparr>status := ''Pending Approval''\<rparr>
                 else contracts d ! i)"
    by (simp add: sql_update_nth)
  have "submit_contract_for_approval uuid4 now cid d = Inr ?d' \<and>
        length (contracts ?d') = length (contracts d) \<and>
        (\<forall>i < length (contracts d).
              contracts ?d' ! i =
                (if contract_id (contracts d ! i) = cid
                 then (contracts d ! i)\<lparr>status := ''Pending Approval''\<rparr>
                 else contracts d ! i)) \<and>
        approvals ?d' = approvals d @ ?rows \<and>
        length ?rows = length (filter (\<lambda>u. role u = ''approver'') (users d)) \<and>
        (\<forall>k < length ?rows.
                ?rows ! k =
                  \<lparr>approval_id = uuid4 k, approval_contract_id = cid,
                   approver_id = user_id (filter (\<lambda>u. role u = ''approver'') (users d) ! k),
                   approval_status = ''Pending'', timestamp = now k\<rparr>) \<and>
        users ?d' = users d \<and> service_reports ?d' = service_reports d \<and>
        invoices ?d' = invoices d"
    using r rows cs len by (simp add: sql_update_length)
  moreover have "\<forall>a d2. \<not> is_submit a \<longrightarrow>
              map (\<lambda>x. (approval_id x, approval_contract_id x, approver_id x))
                  (approvals (exec a (d2 :: 'r db))) =
              map (\<lambda>x. (approval_id x, approval_contract_id x, approver_id x)) (approvals d2)"
    using exec_keeps_approval_rows by blast
  ultimately show ?thesis by blast
qed

text \<open>
  Submitting draft \<open>c1\<close> on the seeded database gives the contract in Pending Approval
  with one Pending approval for each of the three approvers.
\<close>

theorem submit_creates_pending_approvals_witness:
  "fresh_ids ids3 0 (length (approvers draft1)) (approvals draft1) \<and>
   durable (submit_contract_for_approval ids3 clock ''c1'' draft1) =
     with_contract1 ''Pending Approval'' ''Pending'' ''Pending'' ''Pending''"
proof -
  have fresh: "fresh_ids ids3 0 (length (approvers draft1)) (approvals draft1)"
    by (simp add: fresh_ids_def approvers_def draft1_def seeded_def ids3_def)
  from submit_creates_pending_approvals [OF fresh, of clock "''c1''"]
  obtain d' rows where
    r: "submit_contract_for_approval ids3 clock ''c1'' draft1 = Inr d'" and
    lc: "length (contracts d') = length (contracts draft1)" and
    cs: "\<forall>i < length (contracts draft1).
              contracts d' ! i =
                (if contract_id (contracts draft1 ! i) = ''c1''
                 then (contracts draft1 ! i)\<lparr>status := ''Pending Approval''\<rparr>
                 else contracts draft1 ! i)" and
    ap: "approvals d' = approvals draft1 @ rows" and
    lr: "length rows = length (filter (\<lambda>u. role u = ''approver'') (users draft1))" and
    rs: "\<forall>k < length rows.
              rows ! k =
                \<lparr>approval_id = ids3 k, approval_contract_id = ''c1'',
                 approver_id = user_id (filter (\<lambda>u. role u = ''approver'') (users draft1) ! k),
                 approval_status = ''Pending'', timestamp = clock k\<rparr>" and
    fr: "users d' = users draft1" "service_reports d' = service_reports draft1"
        "invoices d' = invoices draft1"
    by blast
  have l3: "length rows = 3"
    using lr by (simp add: draft1_def seeded_def)
  have "rows ! 0 = approval1 ''a1'' ''u2'' ''Pending''"
       "rows ! 1 = approval1 ''a2'' ''u3'' ''Pending''"
       "rows ! 2 = approval1 ''a3'' ''u4'' ''Pending''"
    using rs l3 by (simp_all add: draft1_def seeded_def ids3_def clock_def approval1_def)
  with l3 have rows: "rows = [approval1 ''a1'' ''u2'' ''Pending'', approval1 ''a2'' ''u3'' ''Pending'',
                      approval1 ''a3'' ''u4'' ''Pending'']"
    by (intro nth_equalityI) (auto simp: less_Suc_eq numeral_3_eq_3 numeral_2_eq_2)
  have "contracts d' ! 0 = contract1 ''Pending Approval''"
    using cs by (simp add: draft1_def contract1_def)
  with lc have cont: "contracts d' = [contract1 ''Pending Approval'']"
    by (intro nth_equalityI) (simp_all add: draft1_def)
  have "d' = with_contract1 ''Pending Approval'' ''Pending'' ''Pending'' ''Pending''"
    using rows cont ap fr seeded_empty
    by (intro db.equality) (simp_all add: with_contract1_def draft1_def)
  with r fresh show ?thesis by simp
qed

text \<open>
  Claim C6. \<^verbatim>\<open>submit_contract_for_approval\<close> looks neither for the contract nor at its
  status. On every database and for every contract id, when the ids \<^verbatim>\<open>uuid4()\<close> returns
  are new, it runs to its end, leaves every contract row with that id in Pending Approval,
  keeps the approvals that were there and appends one Pending row of this contract for
  each current approver. The number of approvals of the contract grows by the number of
  approvers while the number of Approved ones stays, so that many approvals are now
  missing for unanimity; and when there is at least one approver, approving any approval
  other than the new ones leaves the contracts table as the submission left it.
\<close>

theorem resubmit_unconditional:
  assumes fresh: "fresh_ids uuid4 0 (length (approvers d)) (approvals d)"
  shows "\<exists>d'.
           submit_contract_for_approval uuid4 now cid d = Inr d' \<and>
           (\<forall>c \<in> set (contracts d'). contract_id c = cid \<longrightarrow> status c = ''Pending Approval'') \<and>
           length (contracts d') = length (contracts d) \<and>
           length (approvals d') = length (approvals d) + length (approvers d) \<and>
           take (length (approvals d)) (approvals d') = approvals d \<and>
           (\<forall>k < length (approvers d).
              approvals d' ! (length (approvals d) + k) =
                \<lparr>approval_id = uuid4 k, approval_contract_id = cid,
                 approver_id = approvers d ! k, approval_status = ''Pending'',
                 timestamp = now k\<rparr>) \<and>
           total_approvers cid d' = total_approvers cid d + length (approvers d) \<and>
           approved_count cid d' = approved_count cid d \<and>
           approved_count cid d' + length (approvers d) \<le> total_approvers cid d' \<and>
           (approvers d \<noteq> [] \<longrightarrow>
              (\<forall>aid. aid \<notin> uuid4 ` {..<length (approvers d)} \<longrightarrow>
                 contracts (approve_contract aid cid d') = contracts d'))"
proof -
  let ?cs = "sql_update (\<lambda>c. contract_id c = cid) (\<lambda>c. c\<lparr>status := ''Pending Approval''\<rparr>)
               (contracts d)"
  let ?rows = "pending_rows uuid4 now 0 cid (approvers d)"
  let ?d' = "d\<lparr>contracts := ?cs, approvals := approvals d @ ?rows\<rparr>"
  have r: "submit_contract_for_approval uuid4 now cid d = Inr ?d'"
    using fresh by (simp add: submit_result)
  have st: "\<forall>c \<in> set (contracts ?d'). contract_id c = cid \<longrightarrow> status c = ''Pending Approval''"
  proof (intro ballI impI)
    fix c
    assume "c \<in> set (contracts ?d')" and c: "contract_id c = cid"
    then obtain c0 where c0: "c0 \<in> set (contracts d)"
      "c = (if contract_id c0 = cid then c0\<lparr>status := ''Pending Approval''\<rparr> else c0)"
      by (auto simp: sql_update_set)
    show "status c = ''Pending Approval''"
    proof (cases "contract_id c0 = cid")
      case True
      with c0 show ?thesis by simp
    next
      case False
      with c0 c show ?thesis by simp
    qed
  qed
  have lens: "length (contracts ?d') = length (contracts d)"
             "length (approvals ?d') = length (approvals d) + length (approvers d)"
             "take (length (approvals d)) (approvals ?d') = approvals d"
    by (simp_all add: sql_update_length)
  have rows: "\<forall>k < length (approvers d).
              approvals ?d' ! (length (approvals d) + k) =
                \<lparr>approval_id = uuid4 k, approval_contract_id = cid,
                 approver_id = approvers d ! k, approval_status = ''Pending'',
                 timestamp = now k\<rparr>"
    by (simp add: pending_rows_nth)
  have tot: "total_approvers cid ?d' = total_approvers cid d + length (approvers d)"
    using pending_rows_counts(1) [of cid uuid4 now 0 "approvers d"]
    by (simp add: total_approvers_def sql_count_def)
  have app: "approved_count cid ?d' = approved_count cid d"
    using pending_rows_counts(2) [of cid uuid4 now 0 "approvers d"]
    by (simp add: approved_count_def sql_count_def)
  have "approved_count cid d \<le> total_approvers cid d"
    by (simp add: approved_count_def total_approvers_def sql_count_def count_le)
  with tot app have le: "approved_count cid ?d' + length (approvers d) \<le> total_approvers cid ?d'"
    by simp
  have again: "approvers d \<noteq> [] \<longrightarrow>
              (\<forall>aid. aid \<notin> uuid4 ` {..<length (approvers d)} \<longrightarrow>
                 contracts (approve_contract aid cid ?d') = contracts ?d')"
  proof (intro impI allI)
    fix aid
    assume ne: "approvers d \<noteq> []" and old: "aid \<notin> uuid4 ` {..<length (approvers d)}"
    from ne obtain u us where "approvers d = u # us"
      by (cases "approvers d") simp_all
    then obtain r where r: "r \<in> set ?rows"
      by (auto simp: pending_rows_Cons)
    from pending_rows_set [OF r]
    have p: "approval_contract_id r = cid" "approval_status r = ''Pending''"
      and "approval_id r \<in> uuid4 ` {0..<0 + length (approvers d)}"
      by simp_all
    then have "approval_id r \<in> uuid4 ` {..<length (approvers d)}"
      by (simp add: lessThan_atLeast0)
    with old have ne_aid: "approval_id r \<noteq> aid"
      by blast
    have "r \<in> set (approvals ?d')"
      using r by simp
    with ne_aid have "r \<in> set (approvals (approve_contract aid cid ?d'))"
      unfolding approve_contract_approvals sql_update_def set_map
      by (intro image_eqI [of _ _ r]) simp_all
    with p have "\<not> (\<forall>a \<in> set (approvals (approve_contract aid cid ?d')).
                    approval_contract_id a = cid \<longrightarrow> approval_status a = ''Approved'')"
      by (intro notI) (drule bspec [of _ _ r], simp_all)
    then have "approved_count cid (approve_contract aid cid ?d')
                   \<noteq> total_approvers cid (approve_contract aid cid ?d')"
      by (simp only: unanimous_iff not_False_eq_True)
    then show "contracts (approve_contract aid cid ?d') = contracts ?d'"
      by (simp add: approve_contract_contracts)
  qed
  show ?thesis
    by (rule exI [of _ ?d']) (intro conjI r st lens rows tot app le again)
qed

text \<open>
  \<open>c1\<close> is Active with three Approved approvals and is submitted again: it is back in
  Pending Approval with six approvals, three of them Approved, and approving \<open>a1\<close> once
  more does not make it Active.
\<close>

theorem resubmit_unconditional_witness:
  "fresh_ids more_ids 0
     (length (approvers (with_contract1 ''Active'' ''Approved'' ''Approved'' ''Approved'')))
     (approvals (with_contract1 ''Active'' ''Approved'' ''Approved'' ''Approved'')) \<and>
   status (contracts (durable (submit_contract_for_approval more_ids clock ''c1''
      (with_contract1 ''Active'' ''Approved'' ''Approved'' ''Approved''))) ! 0)
     = ''Pending Approval'' \<and>
   total_approvers ''c1'' (durable (submit_contract_for_approval more_ids clock ''c1''
      (with_contract1 ''Active'' ''Approved'' ''Approved'' ''Approved''))) = 6 \<and>
   approved_count ''c1'' (durable (submit_contract_for_approval more_ids clock ''c1''
      (with_contract1 ''Active'' ''Approved'' ''Approved'' ''Approved''))) = 3 \<and>
   contracts (approve_contract ''a1'' ''c1'' (durable (submit_contract_for_approval more_ids clock
      ''c1'' (with_contract1 ''Active'' ''Approved'' ''Approved'' ''Approved'')))) =
   contracts (durable (submit_contract_for_approval more_ids clock ''c1''
      (with_contract1 ''Active'' ''Approved'' ''Approved'' ''Approved'')))"
proof -
  let ?d = "with_contract1 ''Active'' ''Approved'' ''Approved'' ''Approved''"
  have ap: "approvers ?d = [''u2'', ''u3'', ''u4'']"
    by (simp add: approvers_def with_contract1_def seeded_def)
  have fresh: "fresh_ids more_ids 0 (length (approvers ?d)) (approvals ?d)"
    unfolding ap by (simp add: fresh_ids_def with_contract1_def approval1_def more_ids_def)
  from resubmit_unconditional [OF fresh, of clock "''c1''"]
  obtain d' where
    r: "submit_contract_for_approval more_ids clock ''c1'' ?d = Inr d'" and
    st: "\<forall>c \<in> set (contracts d'). contract_id c = ''c1'' \<longrightarrow> status c = ''Pending Approval''" and
    lc: "length (contracts d') = length (contracts ?d)" and
    tot: "total_approvers ''c1'' d' = total_approvers ''c1'' ?d + length (approvers ?d)" and
    app: "approved_count ''c1'' d' = approved_count ''c1'' ?d" and
    again: "approvers ?d \<noteq> [] \<longrightarrow>
              (\<forall>aid. aid \<notin> more_ids ` {..<length (approvers ?d)} \<longrightarrow>
                 contracts (approve_contract aid ''c1'' d') = contracts d')"
    by blast
  have nth: "contracts d' ! 0 \<in> set (contracts d')"
    using lc by (intro nth_mem) (simp add: with_contract1_def)
  have "contracts d' =
          sql_update (\<lambda>c. contract_id c = ''c1'') (\<lambda>c. c\<lparr>status := ''Pending Approval''\<rparr>)
            (contracts ?d)"
    using r fresh by (auto simp: submit_result)
  then have cid0: "contract_id (contracts d' ! 0) = ''c1''"
    by (simp add: with_contract1_def sql_update_def contract1_def)
  from st nth cid0 have s: "status (contracts d' ! 0) = ''Pending Approval''"
    by blast
  have "total_approvers ''c1'' ?d = 3" "approved_count ''c1'' ?d = 3"
    by (simp_all add: total_approvers_def approved_count_def sql_count_def with_contract1_def
        approval1_def)
  with tot app ap have n: "total_approvers ''c1'' d' = 6" "approved_count ''c1'' d' = 3"
    by simp_all
  have "''a1'' \<notin> more_ids ` {..<length (approvers ?d)}"
    unfolding ap by (simp add: more_ids_def lessThan_Suc numeral_3_eq_3)
  with again ap have a: "contracts (approve_contract ''a1'' ''c1'' d') = contracts d'"
    by simp
  from r fresh s n a show ?thesis by simp
qed




section \<open>What the pages can reach\<close>






lemma submit_approval_rows:
  assumes "a \<in> set (approvals (durable (submit_contract_for_approval uuid4 now cid d)))"
  shows "a \<in> set (approvals d) \<or> approval_contract_id a = cid"
proof (cases "fresh_ids uuid4 0 (length (approvers d)) (approvals d)")
  case True
  with assms have "a \<in> set (approvals d) \<or> a \<in> set (pending_rows uuid4 now 0 cid (approvers d))"
    by (simp add: submit_tables)
  then show ?thesis
    using pending_rows_set [of a uuid4 now 0 cid "approvers d"] by blast
next
  case False
  with assms show ?thesis by (simp add: submit_tables)
qed





lemma approve_approval_rows:
  assumes "a' \<in> set (approvals (approve_contract aid cid d))"
  obtains a where "a \<in> set (approvals d)" "approval_contract_id a' = approval_contract_id a"
    "approval_status a' = ''Approved'' \<or> a' = a"
proof -
  from assms obtain a where a: "a \<in> set (approvals d)"
    "a' = (if approval_id a = aid then a\<lparr>approval_status := ''Approved''\<rparr> else a)"
    unfolding approve_contract_approvals sql_update_set by blast
  show thesis
  proof (cases "approval_id a = aid")
    case True
    with a show ?thesis by (intro that [of a]) simp_all
  next
    case False
    with a show ?thesis by (intro that [of a]) simp_all
  qed
qed






lemma reject_approval_rows:
  assumes "a' \<in> set (approvals (reject_contract aid cid d))"
  obtains a where "a \<in> set (approvals d)" "approval_contract_id a' = approval_contract_id a"
    "approval_id a = aid \<or> a' = a"
proof -
  from assms obtain a where a: "a \<in> set (approvals d)"
    "a' = (if approval_id a = aid then a\<lparr>approval_status := ''Rejected''\<rparr> else a)"
    unfolding reject_contract_tables sql_update_set by blast
  show thesis
  proof (cases "approval_id a = aid")
    case True
    with a show ?thesis by (intro that [of a]) simp_all
  next
    case False
    with a show ?thesis by (intro that [of a]) simp_all
  qed
qed

















lemma example_decide:
  "offered (Reject ''u2'' ''a1'' ''c1'')
     (with_contract1 ''Pending Approval'' ''Pending'' ''Pending'' ''Pending'')"
  "exec (Reject ''u2'' ''a1'' ''c1'')
     (with_contract1 ''Pending Approval'' ''Pending'' ''Pending'' ''Pending'') =
   with_contract1 ''Rejected'' ''Rejected'' ''Pending'' ''Pending''"
  "offered (Approve ''u3'' ''a2'' ''c1'')
     (with_contract1 ''Rejected'' ''Rejected'' ''Pending'' ''Pending'')"
  "exec (Approve ''u3'' ''a2'' ''c1'')
     (with_contract1 ''Rejected'' ''Rejected'' ''Pending'' ''Pending'') =
   with_contract1 ''Rejected'' ''Rejected'' ''Approved'' ''Pending''"
  "offered (Approve ''u4'' ''a3'' ''c1'')
     (with_contract1 ''Rejected'' ''Rejected'' ''Approved'' ''Pending'')"
  "exec (Approve ''u4'' ''a3'' ''c1'')
     (with_contract1 ''Rejected'' ''Rejected'' ''Approved'' ''Pending'') =
   with_contract1 ''Rejected'' ''Rejected'' ''Approved'' ''Approved''"
  by (simp_all add: get_user_role_def review_contracts_def reject_contract_def
      approve_contract_def approved_count_def total_approvers_def sql_count_def sql_update_def
      with_contract1_def seeded_def contract1_def approval1_def)


section \<open>A submission without approvers\<close>

lemma pending_without_approvals_iff:
  "pending_without_approvals cid d \<longleftrightarrow>
     (\<exists>c \<in> set (contracts d). contract_id c = cid) \<and>
     (\<forall>c \<in> set (contracts d). contract_id c = cid \<longrightarrow> status c = ''Pending Approval'') \<and>
     (\<forall>a \<in> set (approvals d). approval_contract_id a \<noteq> cid)"
  by (simp add: pending_without_approvals_def list_ex_iff list_all_iff)

lemma pending_without_approvals_step:
  assumes "pending_without_approvals cid d"
    and "\<And>c'. c' \<in> set (contracts d') \<Longrightarrow> contract_id c' = cid \<Longrightarrow> c' \<in> set (contracts d)"
    and "\<And>c. c \<in> set (contracts d) \<Longrightarrow> contract_id c = cid \<Longrightarrow> c \<in> set (contracts d')"
    and "\<And>a'. a' \<in> set (approvals d') \<Longrightarrow> approval_contract_id a' = cid \<Longrightarrow>
            \<exists>a \<in> set (approvals d). approval_contract_id a = cid"
  shows "pending_without_approvals cid d'"
  using assms unfolding pending_without_approvals_iff by blast

lemma update_other_contract:
  assumes "cid' \<noteq> cid" and key: "\<And>c. contract_id (upd c) = contract_id c"
  shows "(c' \<in> set (sql_update (\<lambda>c. contract_id c = cid') upd tbl) \<and> contract_id c' = cid)
         \<longleftrightarrow> (c' \<in> set tbl \<and> contract_id c' = cid)"
proof
  assume l: "c' \<in> set (sql_update (\<lambda>c. contract_id c = cid') upd tbl) \<and> contract_id c' = cid"
  then obtain c where c: "c \<in> set tbl" "c' = (if contract_id c = cid' then upd c else c)"
    unfolding sql_update_set by blast
  have "contract_id c \<noteq> cid'"
  proof
    assume "contract_id c = cid'"
    with c have "contract_id c' = cid'" by (simp add: key)
    with l assms(1) show False by simp
  qed
  with c l show "c' \<in> set tbl \<and> contract_id c' = cid" by simp
next
  assume r: "c' \<in> set tbl \<and> contract_id c' = cid"
  with assms(1) have "c' = (if contract_id c' = cid' then upd c' else c')" by simp
  with r show "c' \<in> set (sql_update (\<lambda>c. contract_id c = cid') upd tbl) \<and> contract_id c' = cid"
    unfolding sql_update_set by blast
qed

lemma pending_kept_exec:
  assumes p: "pending_without_approvals cid d"
    and g: "\<not> touches cid a"
  shows "pending_without_approvals cid (exec a d)"
proof (cases a)
  case (SeedUsers uuid4)
  with p show ?thesis
    by (simp add: pending_without_approvals_def seed_frame)
next
  case (CreateContract u cid' vendor desc sd ed bud)
  show ?thesis
  proof (cases "cid' \<in> contract_id ` set (contracts d)")
    case True
    with p CreateContract show ?thesis
      by (simp add: pending_without_approvals_def create_contract_tables create_contract_frame)
  next
    case False
    moreover from p have "cid \<in> contract_id ` set (contracts d)"
      unfolding pending_without_approvals_iff by blast
    ultimately have ne: "cid' \<noteq> cid" by blast
    show ?thesis
    proof (rule pending_without_approvals_step [OF p])
      fix c'
      assume "c' \<in> set (contracts (exec a d))" "contract_id c' = cid"
      with False ne CreateContract show "c' \<in> set (contracts d)"
        by (auto simp: create_contract_tables)
    next
      fix c
      assume "c \<in> set (contracts d)" "contract_id c = cid"
      with False CreateContract show "c \<in> set (contracts (exec a d))"
        by (simp add: create_contract_tables)
    next
      fix a'
      assume "a' \<in> set (approvals (exec a d))" "approval_contract_id a' = cid"
      with CreateContract show "\<exists>a \<in> set (approvals d). approval_contract_id a = cid"
        by (auto simp: create_contract_frame)
    qed
  qed
next
  case (Submit u uuid4 now cid')
  with g have ne: "cid' \<noteq> cid" by simp
  show ?thesis
  proof (rule pending_without_approvals_step [OF p])
    fix c'
    assume "c' \<in> set (contracts (exec a d))" "contract_id c' = cid"
    with Submit show "c' \<in> set (contracts d)"
      using update_other_contract [OF ne, of "\<lambda>c. c\<lparr>status := ''Pending Approval''\<rparr>" c' "contracts d"]
      by (simp add: submit_tables)
  next
    fix c
    assume "c \<in> set (contracts d)" "contract_id c = cid"
    with Submit show "c \<in> set (contracts (exec a d))"
      using update_other_contract [OF ne, of "\<lambda>c. c\<lparr>status := ''Pending Approval''\<rparr>" c "contracts d"]
      by (simp add: submit_tables)
  next
    fix a'
    assume a': "a' \<in> set (approvals (exec a d))" "approval_contract_id a' = cid"
    with Submit have "a' \<in> set (approvals d) \<or> approval_contract_id a' = cid'"
      using submit_approval_rows [of a' uuid4 now cid' d] by simp
    with a'(2) ne show "\<exists>a \<in> set (approvals d). approval_contract_id a = cid"
      by blast
  qed
next
  case (Approve u aid cid')
  with g have ne: "cid' \<noteq> cid" by simp
  have cs: "(c' \<in> set (contracts (exec a d)) \<and> contract_id c' = cid)
              \<longleftrightarrow> (c' \<in> set (contracts d) \<and> contract_id c' = cid)" for c'
    using update_other_contract [OF ne, of "\<lambda>c. c\<lparr>status := ''Active''\<rparr>" c' "contracts d"]
    by (simp add: Approve approve_contract_contracts)
  show ?thesis
  proof (rule pending_without_approvals_step [OF p])
    fix c'
    assume "c' \<in> set (contracts (exec a d))" "contract_id c' = cid"
    with cs [of c'] show "c' \<in> set (contracts d)" by blast
  next
    fix c
    assume "c \<in> set (contracts d)" "contract_id c = cid"
    with cs [of c] show "c \<in> set (contracts (exec a d))" by blast
  next
    fix a'
    assume a': "a' \<in> set (approvals (exec a d))" "approval_contract_id a' = cid"
    from a'(1) Approve have "a' \<in> set (approvals (approve_contract aid cid' d))"
      by simp
    then obtain b where "b \<in> set (approvals d)"
      "approval_contract_id a' = approval_contract_id b"
      by (rule approve_approval_rows)
    with a'(2) show "\<exists>a \<in> set (approvals d). approval_contract_id a = cid"
      by auto
  qed
next
  case (Reject u aid cid')
  with g have ne: "cid' \<noteq> cid" by simp
  have cs: "(c' \<in> set (contracts (exec a d)) \<and> contract_id c' = cid)
              \<longleftrightarrow> (c' \<in> set (contracts d) \<and> contract_id c' = cid)" for c'
    using update_other_contract [OF ne, of "\<lambda>c. c\<lparr>status := ''Rejected''\<rparr>" c' "contracts d"]
    by (simp add: Reject reject_contract_tables)
  show ?thesis
  proof (rule pending_without_approvals_step [OF p])
    fix c'
    assume "c' \<in> set (contracts (exec a d))" "contract_id c' = cid"
    with cs [of c'] show "c' \<in> set (contracts d)" by blast
  next
    fix c
    assume "c \<in> set (contracts d)" "contract_id c = cid"
    with cs [of c] show "c \<in> set (contracts (exec a d))" by blast
  next
    fix a'
    assume a': "a' \<in> set (approvals (exec a d))" "approval_contract_id a' = cid"
    from a'(1) Reject have "a' \<in> set (approvals (reject_contract aid cid' d))"
      by simp
    then obtain b where "b \<in> set (approvals d)"
      "approval_contract_id a' = approval_contract_id b"
      by (rule reject_approval_rows)
    with a'(2) show "\<exists>a \<in> set (approvals d). approval_contract_id a = cid"
      by auto
  qed
next
  case (RecordReport rid cid' sdate work pcost hours)
  with p show ?thesis
    by (simp add: pending_without_approvals_def record_frame)
next
  case (GenerateInvoice u iid today cid' amt)
  with p show ?thesis
    by (simp add: pending_without_approvals_def invoice_frame)
next
  case (MarkPaid u iid)
  with p show ?thesis
    by (simp add: pending_without_approvals_def mark_paid_frame)
qed

lemma pending_kept_run:
  "pending_without_approvals cid d \<Longrightarrow>
   all_along (\<lambda>a d. \<not> touches cid a) as d \<Longrightarrow>
   pending_without_approvals cid (run as d)"
proof (induction as arbitrary: d)
  case Nil
  then show ?case by simp
next
  case (Cons a as)
  from Cons.prems have g: "\<not> touches cid a"
    and rest: "all_along (\<lambda>a d. \<not> touches cid a) as (exec a d)"
    by simp_all
  from pending_kept_exec [OF Cons.prems(1) g] rest show ?case
    using Cons.IH by simp
qed

lemma offered_decides_existing: "offered a d \<Longrightarrow> decides_existing a d"
proof (cases a)
  case (Approve u aid cid)
  assume "offered a d"
  with Approve obtain a0 where "a0 \<in> set (approvals d)" "approval_id a0 = aid"
    "approval_contract_id a0 = cid"
    using offered_decision [of cid aid u d] by auto
  with Approve show ?thesis
    by (auto simp: list_ex_iff)
next
  case (Reject u aid cid)
  assume "offered a d"
  with Reject obtain a0 where "a0 \<in> set (approvals d)" "approval_id a0 = aid"
    "approval_contract_id a0 = cid"
    using offered_decision [of cid aid u d] by auto
  with Reject show ?thesis
    by (auto simp: list_ex_iff)
qed simp_all

lemma offered_not_touches:
  assumes p: "pending_without_approvals cid d" and o: "offered a d"
  shows "\<not> touches cid a"
proof (cases a)
  case (Submit u uuid4 now cid')
  with o obtain c where "c \<in> set (contracts d)" "contract_id c = cid'" "status c = ''Draft''"
    by (auto simp: list_ex_iff)
  with p have "cid' \<noteq> cid"
    unfolding pending_without_approvals_iff by auto
  with Submit show ?thesis by simp
next
  case (Approve u aid cid')
  from o have "decides_existing a d" by (rule offered_decides_existing)
  with Approve obtain a0 where "a0 \<in> set (approvals d)" "approval_contract_id a0 = cid'"
    by (auto simp: list_ex_iff)
  with p have "cid' \<noteq> cid"
    unfolding pending_without_approvals_iff by blast
  with Approve show ?thesis by simp
next
  case (Reject u aid cid')
  from o have "decides_existing a d" by (rule offered_decides_existing)
  with Reject obtain a0 where "a0 \<in> set (approvals d)" "approval_contract_id a0 = cid'"
    by (auto simp: list_ex_iff)
  with p have "cid' \<noteq> cid"
    unfolding pending_without_approvals_iff by blast
  with Reject show ?thesis by simp
qed simp_all

lemma pending_kept_offered_run:
  "pending_without_approvals cid d \<Longrightarrow> all_along offered as d \<Longrightarrow>
   pending_without_approvals cid (run as d)"
proof (induction as arbitrary: d)
  case Nil
  then show ?case by simp
next
  case (Cons a as)
  from Cons.prems have o: "offered a d" and rest: "all_along offered as (exec a d)"
    by simp_all
  from Cons.prems(1) o have "\<not> touches cid a" by (rule offered_not_touches)
  with Cons.prems(1) have "pending_without_approvals cid (exec a d)"
    by (rule pending_kept_exec)
  with rest show ?case
    using Cons.IH by simp
qed

lemma approve_activates_unapproved:
  assumes p: "pending_without_approvals cid d" and i: "i < length (contracts d)"
    and k: "contract_id (contracts d ! i) = cid"
  shows "contracts (approve_contract aid cid d) ! i = (contracts d ! i)\<lparr>status := ''Active''\<rparr>"
proof -
  from p have "\<forall>a \<in> set (approvals d). approval_contract_id a \<noteq> cid"
    unfolding pending_without_approvals_iff by blast
  then have "\<forall>a \<in> set (approvals d).
      approval_contract_id a = cid \<and> approval_id a \<noteq> aid \<longrightarrow> approval_status a = ''Approved''"
    by blast
  then have "approved_count cid (approve_contract aid cid d)
               = total_approvers cid (approve_contract aid cid d)"
    unfolding approved_count_def total_approvers_def sql_count_def
    by (simp only: unanimous_after_approval)
  with i k show ?thesis
    by (simp add: approve_contract_contracts sql_update_nth)
qed

lemma only_approve_activates:
  assumes na: "\<not> approves cid a" and i: "i < length (contracts d)"
    and k: "contract_id (contracts d ! i) = cid"
    and act: "status (contracts (exec a d) ! i) = ''Active''"
  shows "status (contracts d ! i) = ''Active''"
proof (cases a)
  case (SeedUsers uuid4)
  with act show ?thesis by (simp add: seed_frame)
next
  case (CreateContract u cid' vendor desc sd ed bud)
  with i act show ?thesis
    by (simp add: create_contract_tables nth_append split: if_splits)
next
  case (Submit u uuid4 now cid')
  with i act show ?thesis
    by (simp add: submit_tables sql_update_nth split: if_splits)
next
  case (Approve u aid cid')
  with na have "cid' \<noteq> cid" by simp
  with Approve i k act show ?thesis
    by (simp add: approve_contract_contracts sql_update_nth split: if_splits)
next
  case (Reject u aid cid')
  with i act show ?thesis
    by (simp add: reject_contract_tables sql_update_nth split: if_splits)
next
  case (RecordReport rid cid' sdate work pcost hours)
  with act show ?thesis by (simp add: record_frame)
next
  case (GenerateInvoice u iid today cid' amt)
  with act show ?thesis by (simp add: invoice_frame)
next
  case (MarkPaid u iid)
  with act show ?thesis by (simp add: mark_paid_frame)
qed

lemma submit_without_approvers:
  assumes "approvers d = []"
  shows "submit_contract_for_approval uuid4 now cid d =
           Inr (d\<lparr>contracts :=
                   sql_update (\<lambda>c. contract_id c = cid)
                     (\<lambda>c. c\<lparr>status := ''Pending Approval''\<rparr>) (contracts d)\<rparr>)"
  using assms by (simp add: submit_result)

lemma submit_pending_without_approvals:
  assumes ap: "approvers d = []"
    and ex: "list_ex (\<lambda>c. contract_id c = cid) (contracts d)"
    and no: "list_all (\<lambda>a. approval_contract_id a \<noteq> cid) (approvals d)"
  shows "pending_without_approvals cid (durable (submit_contract_for_approval uuid4 now cid d))"
proof -
  let ?cs = "sql_update (\<lambda>c. contract_id c = cid)
               (\<lambda>c. c\<lparr>status := ''Pending Approval''\<rparr>) (contracts d)"
  have d': "contracts (durable (submit_contract_for_approval uuid4 now cid d)) = ?cs"
    "approvals (durable (submit_contract_for_approval uuid4 now cid d)) = approvals d"
    using ap by (simp_all add: submit_without_approvers)
  from ex obtain c where c: "c \<in> set (contracts d)" "contract_id c = cid"
    unfolding list_ex_iff by blast
  then have "c\<lparr>status := ''Pending Approval''\<rparr> \<in> set ?cs"
    unfolding sql_update_set by (intro bexI [of _ c]) simp_all
  then have 1: "\<exists>c \<in> set ?cs. contract_id c = cid"
    using c(2) by (intro bexI [of _ "c\<lparr>status := ''Pending Approval''\<rparr>"]) simp_all
  have 2: "\<forall>c' \<in> set ?cs. contract_id c' = cid \<longrightarrow> status c' = ''Pending Approval''"
  proof (intro ballI impI)
    fix c'
    assume "c' \<in> set ?cs" and k: "contract_id c' = cid"
    then obtain c0 where c0: "c0 \<in> set (contracts d)"
      "c' = (if contract_id c0 = cid then c0\<lparr>status := ''Pending Approval''\<rparr> else c0)"
      unfolding sql_update_set by blast
    show "status c' = ''Pending Approval''"
    proof (cases "contract_id c0 = cid")
      case True
      with c0 show ?thesis by simp
    next
      case False
      with c0 k show ?thesis by simp
    qed
  qed
  from no have 3: "\<forall>a \<in> set (approvals d). approval_contract_id a \<noteq> cid"
    unfolding list_all_iff .
  from 1 2 3 show ?thesis
    unfolding pending_without_approvals_iff d' by blast
qed

text \<open>
  Claim C10, as stated: the only write that makes a contract Active is an approval of an
  existing approval of that contract, so a contract submitted without approvers stays in
  Pending Approval under every later operation other than a submission or a rejection.
  Without approvers, \<open>c1\<close> is submitted and gets no approval row; \<^verbatim>\<open>approve_contract\<close>
  called with the contract's id and an approval id \<open>zz\<close> that no approval has then counts
  no Approved approval out of none, finds the two numbers equal, and makes \<open>c1\<close> Active.
\<close>

theorem approve_without_approvals_counterexample:
  "approvers unstaffed = [] \<and>
   approvals (durable (submit_contract_for_approval ids3 clock ''c1'' unstaffed)) = [] \<and>
   contracts (durable (submit_contract_for_approval ids3 clock ''c1'' unstaffed))
     = [contract1 ''Pending Approval''] \<and>
   contracts (approve_contract ''zz'' ''c1''
       (durable (submit_contract_for_approval ids3 clock ''c1'' unstaffed)))
     = [contract1 ''Active'']"
proof -
  have h: "approvers unstaffed = []"
    by (simp add: approvers_def unstaffed_def)
  have s: "durable (submit_contract_for_approval ids3 clock ''c1'' unstaffed)
             = unstaffed\<lparr>contracts := [contract1 ''Pending Approval'']\<rparr>"
    by (simp add: submit_without_approvers [OF h])
      (simp add: unstaffed_def sql_update_def contract1_def)
  have a: "contracts (approve_contract ''zz'' ''c1''
             (unstaffed\<lparr>contracts := [contract1 ''Pending Approval'']\<rparr>))
           = [contract1 ''Active'']"
    by (simp add: approve_contract_def Let_def approved_count_def total_approvers_def
        sql_count_def sql_update_def unstaffed_def contract1_def)
  from h a show ?thesis
    unfolding s by (simp add: unstaffed_def)
qed

text \<open>
  Claim C10, amended. When no user has the role approver, a submission runs to its end and
  creates no approval row; if the contract exists and had no approval before, it is then
  in Pending Approval without approvals. From such a state the contract stays in Pending
  Approval, without approvals, under every sequence of writes none of which is a
  submission, an approval or a rejection passed this contract's id; the pages offer no
  such write for it, so it also stays so under every sequence of offered writes and
  through every session. An approval passed this contract's id makes its rows Active,
  whatever approval id comes with it. Only \<^verbatim>\<open>approve_contract\<close> called with the
  contract's own id makes a row of the contract Active: after any other write a row
  that is Active was Active before. Every decision a page offers names an existing
  approval together with its contract. In the program as it runs, the seeding comes
  before every page: on a users table that is empty or holds the demo users, a seeding
  that returns leaves three approvers, and a session started from such a table keeps it
  empty or seeded, so that the submissions of a session find three approvers.
\<close>

theorem unapproved_contract_stays_pending:
  "(approvers d = [] \<longrightarrow>
      submit_contract_for_approval uuid4 now cid d =
        Inr (d\<lparr>contracts :=
                sql_update (\<lambda>c. contract_id c = cid)
                  (\<lambda>c. c\<lparr>status := ''Pending Approval''\<rparr>) (contracts d)\<rparr>)) \<and>
   (approvers d = [] \<and> list_ex (\<lambda>c. contract_id c = cid) (contracts d) \<and>
    list_all (\<lambda>a. approval_contract_id a \<noteq> cid) (approvals d) \<longrightarrow>
      pending_without_approvals cid (durable (submit_contract_for_approval uuid4 now cid d))) \<and>
   (pending_without_approvals cid d \<and> all_along (\<lambda>a d. \<not> touches cid a) as d \<longrightarrow>
      pending_without_approvals cid (run as d)) \<and>
   (pending_without_approvals cid d \<and> all_along offered as d \<longrightarrow>
      pending_without_approvals cid (run as d)) \<and>
   (pending_without_approvals cid d \<longrightarrow> pending_without_approvals cid (session ps d)) \<and>
   (\<forall>i < length (contracts d).
      pending_without_approvals cid d \<and> contract_id (contracts d ! i) = cid \<longrightarrow>
        contracts (approve_contract aid cid d) ! i = (contracts d ! i)\<lparr>status := ''Active''\<rparr>) \<and>
   (\<forall>i < length (contracts d).
      \<not> approves cid a \<and> contract_id (contracts d ! i) = cid \<and>
      status (contracts (exec a d) ! i) = ''Active'' \<longrightarrow>
        status (contracts d ! i) = ''Active'') \<and>
   (offered a d \<longrightarrow> decides_existing a d) \<and>
   ((users d = [] \<or> demo_seeded d) \<and> seed_users ids d = Inr d1 \<longrightarrow>
      length (approvers d1) = 3) \<and>
   (users d = [] \<or> demo_seeded d \<longrightarrow>
      users (session ps d) = [] \<or> demo_seeded (session ps d))"
proof (intro conjI impI allI)
  assume "approvers d = []"
  then show "submit_contract_for_approval uuid4 now cid d =
        Inr (d\<lparr>contracts :=
                sql_update (\<lambda>c. contract_id c = cid)
                  (\<lambda>c. c\<lparr>status := ''Pending Approval''\<rparr>) (contracts d)\<rparr>)"
    by (rule submit_without_approvers)
next
  assume "approvers d = [] \<and> list_ex (\<lambda>c. contract_id c = cid) (contracts d) \<and>
    list_all (\<lambda>a. approval_contract_id a \<noteq> cid) (approvals d)"
  then show "pending_without_approvals cid
               (durable (submit_contract_for_approval uuid4 now cid d))"
    by (intro submit_pending_without_approvals) simp_all
next
  assume "pending_without_approvals cid d \<and> all_along (\<lambda>a d. \<not> touches cid a) as d"
  then show "pending_without_approvals cid (run as d)"
    by (intro pending_kept_run) simp_all
next
  assume "pending_without_approvals cid d \<and> all_along offered as d"
  then show "pending_without_approvals cid (run as d)"
    by (intro pending_kept_offered_run) simp_all
next
  assume p: "pending_without_approvals cid d"
  obtain bs where "all_along offered bs d" "session ps d = run bs d"
    using session_is_run by blast
  with p show "pending_without_approvals cid (session ps d)"
    by (simp add: pending_kept_offered_run)
next
  fix i
  assume "i < length (contracts d)"
    and "pending_without_approvals cid d \<and> contract_id (contracts d ! i) = cid"
  then show "contracts (approve_contract aid cid d) ! i = (contracts d ! i)\<lparr>status := ''Active''\<rparr>"
    by (intro approve_activates_unapproved) simp_all
next
  fix i
  assume "i < length (contracts d)"
    and "\<not> approves cid a \<and> contract_id (contracts d ! i) = cid \<and>
      status (contracts (exec a d) ! i) = ''Active''"
  then show "status (contracts d ! i) = ''Active''"
    by (intro only_approve_activates [of cid a i d]) simp_all
next
  assume "offered a d"
  then show "decides_existing a d"
    by (rule offered_decides_existing)
next
  assume h: "(users d = [] \<or> demo_seeded d) \<and> seed_users ids d = Inr d1"
  have "demo_seeded d1"
  proof (cases "users d = []")
    case True
    with h show ?thesis by (intro seed_users_empty [of d ids d1]) simp_all
  next
    case False
    with h have "demo_seeded d" by simp
    with h show ?thesis by (simp add: seed_users_again)
  qed
  then show "length (approvers d1) = 3"
    by (rule demo_seeded_approvers)
next
  assume "users d = [] \<or> demo_seeded d"
  then show "users (session ps d) = [] \<or> demo_seeded (session ps d)"
    by (rule seeded_or_empty_session)
qed

text \<open>
  Without approvers, \<open>c1\<close> is submitted and no approval appears; after a second contract
  with its submission, decisions passed the id of the second contract, a seeding, a
  service report, an invoice, its payment and a failed attempt to create \<open>c1\<close> anew,
  \<open>c1\<close> is still in Pending Approval without approvals, and so it is after a session in
  which an approval for it is attempted through the page, which does not offer it. The
  direct call of \<^verbatim>\<open>approve_contract\<close> makes it Active. On a new file the first seeding
  leaves the three approvers of the demo users.
\<close>

theorem unapproved_contract_stays_pending_witness:
  "approvers unstaffed = [] \<and>
   list_ex (\<lambda>c. contract_id c = ''c1'') (contracts unstaffed) \<and>
   list_all (\<lambda>a. approval_contract_id a \<noteq> ''c1'') (approvals unstaffed) \<and>
   approvals (durable (submit_contract_for_approval ids3 clock ''c1'' unstaffed)) = [] \<and>
   all_along (\<lambda>a d. \<not> touches ''c1'' a)
     [CreateContract ''u1'' ''c2'' ''v'' ''d'' ''s'' ''e'' 7, Submit ''u1'' ids3 clock ''c2'',
      Approve ''u2'' ''zz'' ''c2'', Reject ''u2'' ''zz'' ''c2'', SeedUsers ids5,
      RecordReport ''r1'' ''c1'' ''s'' ''w'' 1 2,
      GenerateInvoice ''u5'' ''i1'' ''t'' ''c1'' 5, MarkPaid ''u5'' ''i1'',
      CreateContract ''u1'' ''c1'' ''v'' ''d'' ''s'' ''e'' 7]
     (durable (submit_contract_for_approval ids3 clock ''c1'' unstaffed)) \<and>
   pending_without_approvals ''c1''
     (run [CreateContract ''u1'' ''c2'' ''v'' ''d'' ''s'' ''e'' 7, Submit ''u1'' ids3 clock ''c2'',
           Approve ''u2'' ''zz'' ''c2'', Reject ''u2'' ''zz'' ''c2'', SeedUsers ids5,
           RecordReport ''r1'' ''c1'' ''s'' ''w'' 1 2,
           GenerateInvoice ''u5'' ''i1'' ''t'' ''c1'' 5, MarkPaid ''u5'' ''i1'',
           CreateContract ''u1'' ''c1'' ''v'' ''d'' ''s'' ''e'' 7]
        (durable (submit_contract_for_approval ids3 clock ''c1'' unstaffed))) \<and>
   all_along offered [SeedUsers ids5, RecordReport ''r1'' ''c1'' ''s'' ''w'' 1 2]
     (durable (submit_contract_for_approval ids3 clock ''c1'' unstaffed)) \<and>
   pending_without_approvals ''c1''
     (run [SeedUsers ids5, RecordReport ''r1'' ''c1'' ''s'' ''w'' 1 2]
        (durable (submit_contract_for_approval ids3 clock ''c1'' unstaffed))) \<and>
   pending_without_approvals ''c1''
     (session [(ids5, Approve ''u2'' ''zz'' ''c1''), (ids5, RecordReport ''r1'' ''c1'' ''s'' ''w'' 1 2)]
        (durable (submit_contract_for_approval ids3 clock ''c1'' unstaffed))) \<and>
   status (contracts (approve_contract ''zz'' ''c1''
     (durable (submit_contract_for_approval ids3 clock ''c1'' unstaffed))) ! 0) = ''Active'' \<and>
   status (contracts (with_contract1 ''Active'' ''Approved'' ''Approved'' ''Approved'') ! 0)
     = ''Active'' \<and>
   decides_existing (Reject ''u2'' ''a1'' ''c1'')
     (with_contract1 ''Pending Approval'' ''Pending'' ''Pending'' ''Pending'') \<and>
   users (init_db :: int db) = [] \<and> seed_users ids5 (init_db :: int db) = Inr seeded \<and>
   length (approvers seeded) = 3 \<and>
   demo_seeded (session [(ids5, CreateContract ''u1'' ''c1'' ''v'' ''d'' ''s'' ''e'' 7)]
                  (init_db :: int db))"
proof -
  let ?d1 = "durable (submit_contract_for_approval ids3 clock ''c1'' unstaffed)"
  let ?as = "[CreateContract ''u1'' ''c2'' ''v'' ''d'' ''s'' ''e'' 7, Submit ''u1'' ids3 clock ''c2'',
           Approve ''u2'' ''zz'' ''c2'', Reject ''u2'' ''zz'' ''c2'', SeedUsers ids5,
           RecordReport ''r1'' ''c1'' ''s'' ''w'' 1 2,
           GenerateInvoice ''u5'' ''i1'' ''t'' ''c1'' 5, MarkPaid ''u5'' ''i1'',
           CreateContract ''u1'' ''c1'' ''v'' ''d'' ''s'' ''e'' (7::int)]"
  let ?os = "[SeedUsers ids5, RecordReport ''r1'' ''c1'' ''s'' ''w'' 1 (2::int)]"
  let ?ps = "[(ids5, Approve ''u2'' ''zz'' ''c1''),
              (ids5, RecordReport ''r1'' ''c1'' ''s'' ''w'' 1 (2::int))]"
  let ?qs = "[(ids5, CreateContract ''u1'' ''c1'' ''v'' ''d'' ''s'' ''e'' (7::int))]"
  let ?act = "with_contract1 ''Active'' ''Approved'' ''Approved'' ''Approved''"
  let ?pen = "with_contract1 ''Pending Approval'' ''Pending'' ''Pending'' ''Pending''"
  let ?new = "init_db :: int db"
  have h1: "approvers unstaffed = []"
    by (simp add: approvers_def unstaffed_def)
  have h2: "list_ex (\<lambda>c. contract_id c = ''c1'') (contracts unstaffed)"
    by (simp add: unstaffed_def contract1_def)
  have h3: "list_all (\<lambda>a. approval_contract_id a \<noteq> ''c1'') (approvals unstaffed)"
    by (simp add: unstaffed_def)
  have sub: "submit_contract_for_approval ids3 clock ''c1'' unstaffed =
          Inr (unstaffed\<lparr>contracts :=
                sql_update (\<lambda>c. contract_id c = ''c1'')
                  (\<lambda>c. c\<lparr>status := ''Pending Approval''\<rparr>) (contracts unstaffed)\<rparr>)"
    using unapproved_contract_stays_pending [where d = unstaffed and ?uuid4.0 = ids3 and now = clock
        and cid = "''c1''"] h1 by blast
  then have e: "approvals ?d1 = []"
    by (simp add: unstaffed_def)
  from sub have row: "0 < length (contracts ?d1)" "contract_id (contracts ?d1 ! 0) = ''c1''"
    by (simp_all add: unstaffed_def sql_update_def contract1_def)
  have p: "pending_without_approvals ''c1'' ?d1"
    using unapproved_contract_stays_pending [where d = unstaffed and ?uuid4.0 = ids3 and now = clock
        and cid = "''c1''"] h1 h2 h3 by blast
  have g: "all_along (\<lambda>a d. \<not> touches ''c1'' a) ?as ?d1"
    by simp
  have r: "pending_without_approvals ''c1'' (run ?as ?d1)"
    using unapproved_contract_stays_pending [where d = ?d1 and cid = "''c1''" and as = ?as] p g
    by blast
  have og: "all_along offered ?os ?d1"
    by simp
  have or: "pending_without_approvals ''c1'' (run ?os ?d1)"
    using unapproved_contract_stays_pending [where d = ?d1 and cid = "''c1''" and as = ?os] p og
    by blast
  have sr: "pending_without_approvals ''c1'' (session ?ps ?d1)"
    using unapproved_contract_stays_pending [where d = ?d1 and cid = "''c1''" and ps = ?ps] p
    by blast
  have "contracts (approve_contract ''zz'' ''c1'' ?d1) ! 0
          = (contracts ?d1 ! 0)\<lparr>status := ''Active''\<rparr>"
    using unapproved_contract_stays_pending [where d = ?d1 and cid = "''c1''" and aid = "''zz''"]
      p row by blast
  then have z: "status (contracts (approve_contract ''zz'' ''c1'' ?d1) ! 0) = ''Active''"
    by simp
  have "0 < length (contracts ?act)" "contract_id (contracts ?act ! 0) = ''c1''"
    "\<not> approves ''c1'' (MarkPaid ''u5'' ''i9'')"
    "status (contracts (exec (MarkPaid ''u5'' ''i9'') ?act) ! 0) = ''Active''"
    by (simp_all add: mark_paid_frame) (simp_all add: with_contract1_def contract1_def)
  then have a: "status (contracts ?act ! 0) = ''Active''"
    using unapproved_contract_stays_pending [where d = ?act and cid = "''c1''"
        and a = "MarkPaid ''u5'' ''i9''"]
    by blast
  have o: "decides_existing (Reject ''u2'' ''a1'' ''c1'') ?pen"
    using unapproved_contract_stays_pending [where d = ?pen and a = "Reject ''u2'' ''a1'' ''c1''"]
      example_decide(1) by blast
  have n: "users ?new = []"
    by (simp add: init_db_def)
  have sd: "seed_users ids5 ?new = Inr seeded"
    by (rule seed_new_file)
  have l: "length (approvers seeded) = 3"
    using unapproved_contract_stays_pending [where d = ?new and ids = ids5 and ?d1.0 = seeded] n sd
    by blast
  have "users (session ?qs ?new) = [] \<or> demo_seeded (session ?qs ?new)"
    using unapproved_contract_stays_pending [where d = ?new and ps = ?qs] n
    by blast
  moreover have "users (session ?qs ?new) \<noteq> []"
    by (simp add: main_def sd) (simp add: get_user_role_def seeded_def create_contract_def sql_insert_def)
  ultimately have q: "demo_seeded (session ?qs ?new)"
    by blast
  from h1 h2 h3 e g r og or sr z a o n sd l q show ?thesis
    by (intro conjI)
qed

end
